theory Spec2Isabelle
  imports Main "HOL-Library.Word"
begin

section \<open>The dispatch and validation layer of array/kernel.cc\<close>

text \<open>
  The file \<^verbatim>\<open>src/array/kernel.cc\<close> holds three read-only checks (\<^verbatim>\<open>CheckCtx\<close>,
  \<^verbatim>\<open>CheckContiguous\<close>, \<^verbatim>\<open>CheckShape\<close>), the dispatch functions \<^verbatim>\<open>SpMM\<close>, \<^verbatim>\<open>SDDMM\<close>,
  \<^verbatim>\<open>GetEdgeMapping\<close>, \<^verbatim>\<open>SegmentReduceDispatch\<close>, \<^verbatim>\<open>BackwardSegmentCmpDispatch\<close>, and the
  registered entry points that run the checks and then dispatch.

  Every \<^verbatim>\<open>CHECK\<close> and \<^verbatim>\<open>LOG(FATAL)\<close> of the source throws; here a function that can throw
  returns a sum, with \<open>Inl\<close> the error. The numeric kernels write into the caller's buffers;
  here the buffers are a store of an arbitrary type \<open>'s\<close> that only a kernel transforms, and
  every function that can reach a kernel returns its outcome together with the store it
  leaves behind.
\<close>

subsection \<open>Tensor handles\<close>

record DLContext =
  device_type :: int
  device_id :: int

record DLDataType =
  code :: nat
  bits :: nat
  lanes :: nat

text \<open>
  The entries of \<^verbatim>\<open>shape\<close> are \<^verbatim>\<open>int64_t\<close> in the tensor and the structural counts of the
  graph are \<^verbatim>\<open>uint64_t\<close>; \<^verbatim>\<open>CHECK_EQ\<close> compares them after the usual conversion to
  \<^verbatim>\<open>uint64_t\<close>, that is, as 64-bit patterns. Both are therefore 64-bit words.
  \<^verbatim>\<open>ndim\<close> is the number of entries of \<^verbatim>\<open>shape\<close>. The field \<open>is_null\<close> marks the null
  sentinel described below.
\<close>

record NDArray =
  is_null :: bool
  ctx :: DLContext
  dtype :: DLDataType
  shape :: "64 word list"
  IsContiguous :: bool

definition ndim :: "NDArray \<Rightarrow> int" where
  "ndim a = int (length (shape a))"

text \<open>
  Modelled from the spec: \<^verbatim>\<open>IsNullArray\<close> and \<^verbatim>\<open>NullArray\<close> are declared in a header
  outside this file. A tensor handle may be the designated null sentinel, meaning that
  the argument is absent; every check skips such a tensor. The handle carries the
  designation, and the sentinel itself is an empty tensor that carries it.
\<close>

definition IsNullArray :: "NDArray \<Rightarrow> bool" where
  "IsNullArray a = is_null a"

definition NullArray :: NDArray where
  "NullArray = \<lparr>is_null = True, ctx = \<lparr>device_type = 1, device_id = 0\<rparr>,
     dtype = \<lparr>code = 0, bits = 64, lanes = 1\<rparr>, shape = [0], IsContiguous = True\<rparr>"

subsection \<open>Errors\<close>

text \<open>
  One constructor per failing statement of the file; the checks carry the name of the
  operand they reject, as the message of the source does. \<open>BroadcastIncompatible\<close> is
  raised by the broadcast resolver only. \<open>IndexOutOfRange\<close> stands for a read of
  \<^verbatim>\<open>gdim\<close> outside its entries, which the source does not guard (the behaviour of the
  program is undefined there); no statement below concludes anything from it.
\<close>

datatype error =
    ContextMismatch string
  | NotContiguous string
  | ShapeMismatch string
  | EdgeTypeCount
  | BroadcastIncompatible
  | UnsupportedFormat
  | UnsupportedDispatch
  | IndexOutOfRange

subsection \<open>The three checks\<close>

text \<open>
  Each check walks \<^verbatim>\<open>arrays\<close> from the front, skips a null tensor and throws at the first
  violation. \<^verbatim>\<open>names\<close> (and \<^verbatim>\<open>uev_idx\<close>) are read at the same position as \<^verbatim>\<open>arrays\<close>;
  every caller in the file passes lists of equal length.
\<close>

fun CheckCtx :: "DLContext \<Rightarrow> NDArray list \<Rightarrow> string list \<Rightarrow> error + unit" where
  "CheckCtx c (a # arrays) (n # names) =
     (if IsNullArray a then CheckCtx c arrays names
      else if c \<noteq> ctx a then Inl (ContextMismatch n)
      else CheckCtx c arrays names)"
| "CheckCtx c _ _ = Inr ()"

fun CheckContiguous :: "NDArray list \<Rightarrow> string list \<Rightarrow> error + unit" where
  "CheckContiguous (a # arrays) (n # names) =
     (if IsNullArray a then CheckContiguous arrays names
      else if \<not> IsContiguous a then Inl (NotContiguous n)
      else CheckContiguous arrays names)"
| "CheckContiguous _ _ = Inr ()"

definition gdim_at :: "64 word list \<Rightarrow> int \<Rightarrow> 64 word option" where
  "gdim_at gdim i = (if 0 \<le> i \<and> nat i < length gdim then Some (gdim ! nat i) else None)"

fun CheckShape ::
  "64 word list \<Rightarrow> int list \<Rightarrow> NDArray list \<Rightarrow> string list \<Rightarrow> error + unit" where
  "CheckShape gdim (u # uev_idx) (a # arrays) (n # names) =
     (if IsNullArray a then CheckShape gdim uev_idx arrays names
      else if ndim a < 2 then Inl (ShapeMismatch n)
      else (case gdim_at gdim u of
              None \<Rightarrow> Inl IndexOutOfRange
            | Some cnt \<Rightarrow>
                if cnt \<noteq> hd (shape a) then Inl (ShapeMismatch n)
                else CheckShape gdim uev_idx arrays names))"
| "CheckShape gdim _ _ _ = Inr ()"

text \<open>
  What the body of each loop asks of one tensor: a null tensor is skipped, any other
  must be on the reference context, be contiguous, and have at least two dimensions of
  which the first is the count \<open>cnt\<close>.
\<close>

definition ctx_ok :: "DLContext \<Rightarrow> NDArray \<Rightarrow> bool" where
  "ctx_ok c a = (if IsNullArray a then True else ctx a = c)"

definition contiguous_ok :: "NDArray \<Rightarrow> bool" where
  "contiguous_ok a = (if IsNullArray a then True else IsContiguous a)"

definition shape_ok :: "64 word \<Rightarrow> NDArray \<Rightarrow> bool" where
  "shape_ok cnt a = (if IsNullArray a then True else 2 \<le> ndim a \<and> hd (shape a) = cnt)"

subsection \<open>The graph handle\<close>

datatype SparseFormat = kCOO | kCSR | kCSC

text \<open>
  The codes by which a caller names the format it prefers are constants of a header
  outside this file; their values play no role in what follows.
\<close>

definition coo_code :: nat where
  "coo_code = 1"

definition csc_code :: nat where
  "csc_code = 4"

text \<open>
  Modelled from the spec: the adjacency types are declared outside this file.
  Of a compressed matrix the file reads the field \<^verbatim>\<open>data\<close>, of a coordinate list
  \<^verbatim>\<open>row\<close> and \<^verbatim>\<open>col\<close>. \<open>data\<close> is the edge mapping of the format: the array that takes a
  position in the physical order of the format to the canonical edge id, or the null
  sentinel when the two orders coincide. Every format carries one; that of a coordinate
  list is the field \<open>coo_data\<close> here.
\<close>

record CSRMatrix =
  indptr :: NDArray
  indices :: NDArray
  data :: NDArray

record COOMatrix =
  row :: NDArray
  col :: NDArray
  coo_data :: NDArray

text \<open>
  The graph is reached only through its methods; the record holds what each of them
  returns. \<open>FindEdge\<close> is \<^verbatim>\<open>meta_graph()->FindEdge\<close>.
\<close>

record HeteroGraph =
  Context :: DLContext
  DataType :: DLDataType
  NumEdgeTypes :: nat
  FindEdge :: "nat \<Rightarrow> nat \<times> nat"
  NumVertices :: "nat \<Rightarrow> 64 word"
  NumEdges :: "nat \<Rightarrow> 64 word"
  SelectFormat :: "nat \<Rightarrow> nat \<Rightarrow> SparseFormat"
  GetCSCMatrix :: "nat \<Rightarrow> CSRMatrix"
  GetCSRMatrix :: "nat \<Rightarrow> CSRMatrix"
  GetCOOMatrix :: "nat \<Rightarrow> COOMatrix"

text \<open>
  The structural counts both entry points put into \<^verbatim>\<open>gdim\<close>, and the count a role
  index stands for: 0 the source vertices, 1 the edges, 2 the destination vertices.
\<close>

definition src_count :: "HeteroGraph \<Rightarrow> 64 word" where
  "src_count graph = NumVertices graph (fst (FindEdge graph 0))"

definition edge_count :: "HeteroGraph \<Rightarrow> 64 word" where
  "edge_count graph = NumEdges graph 0"

definition dst_count :: "HeteroGraph \<Rightarrow> 64 word" where
  "dst_count graph = NumVertices graph (snd (FindEdge graph 0))"

definition target_count :: "HeteroGraph \<Rightarrow> int \<Rightarrow> 64 word" where
  "target_count graph t =
     (if t = 0 then src_count graph else if t = 1 then edge_count graph else dst_count graph)"

subsection \<open>Kernels and the other external collaborators\<close>

text \<open>
  Modelled from the spec: the three switch macros are defined outside this file.
  They resolve a request along three axes, each a fixed, closed enumeration:
  backends {host, accelerator}, index widths {32-bit, 64-bit}, float precisions {16-bit,
  32-bit, 64-bit, plus a reduced-range 16-bit variant}. The macro binds the template
  argument (\<^verbatim>\<open>XPU\<close>, \<^verbatim>\<open>IdType\<close>, \<^verbatim>\<open>bits\<close>) to one member of its enumeration.
\<close>

datatype backend = Host | Accelerator

datatype index_width = Int32 | Int64

datatype float_precision = Float16 | BFloat16 | Float32 | Float64

text \<open>
  A kernel invocation: the kernel template, its three template arguments and the
  arguments of the call.
\<close>

datatype 'b kernel_call =
    SpMMCsr backend index_width float_precision
      string string 'b CSRMatrix NDArray NDArray NDArray "NDArray list"
  | SpMMCoo backend index_width float_precision
      string string 'b COOMatrix NDArray NDArray NDArray "NDArray list"
  | SDDMMCsr backend index_width float_precision
      string 'b CSRMatrix NDArray NDArray NDArray int int
  | SDDMMCoo backend index_width float_precision
      string 'b COOMatrix NDArray NDArray NDArray int int
  | SegmentReduce backend index_width float_precision
      string NDArray NDArray NDArray NDArray
  | BackwardSegmentCmp backend index_width float_precision
      NDArray NDArray NDArray


text \<open>
  What the file uses and does not define is a parameter of the model: the three switch
  macros, applied to the value they switch on (\<open>None\<close> is their fatal branch), the
  broadcast resolver \<^verbatim>\<open>CalcBcastOff\<close> with a descriptor of any type \<open>'b\<close>, and the
  kernels, which transform the store. Every statement below holds for all of them.
\<close>

record ('b, 's) externals =
  ATEN_XPU_SWITCH_CUDA :: "int \<Rightarrow> backend option"
  ATEN_ID_TYPE_SWITCH :: "DLDataType \<Rightarrow> index_width option"
  ATEN_FLOAT_BITS_SWITCH :: "DLDataType \<Rightarrow> float_precision option"
  CalcBcastOff :: "string \<Rightarrow> NDArray \<Rightarrow> NDArray \<Rightarrow> error + 'b"
  kernel :: "'b kernel_call \<Rightarrow> 's \<Rightarrow> 's"

type_synonym ('b, 's) outcome = "(error + 'b kernel_call) \<times> 's"

definition launch :: "('b, 's) externals \<Rightarrow> 'b kernel_call \<Rightarrow> 's \<Rightarrow> ('b, 's) outcome" where
  "launch X k s = (Inr k, kernel X k s)"

subsection \<open>Dispatch\<close>

definition SpMM ::
  "('b, 's) externals \<Rightarrow> string \<Rightarrow> string \<Rightarrow> HeteroGraph \<Rightarrow> NDArray \<Rightarrow> NDArray \<Rightarrow> NDArray \<Rightarrow>
   NDArray list \<Rightarrow> 's \<Rightarrow> ('b, 's) outcome" where
  "SpMM X op reduce graph ufeat efeat out out_aux s =
     (let format = SelectFormat graph 0 csc_code in
      case CalcBcastOff X op ufeat efeat of
        Inl e \<Rightarrow> (Inl e, s)
      | Inr bcast \<Rightarrow>
      (case ATEN_XPU_SWITCH_CUDA X (device_type (Context graph)) of
        None \<Rightarrow> (Inl UnsupportedDispatch, s)
      | Some XPU \<Rightarrow>
      (case ATEN_ID_TYPE_SWITCH X (DataType graph) of
        None \<Rightarrow> (Inl UnsupportedDispatch, s)
      | Some IdType \<Rightarrow>
      (case ATEN_FLOAT_BITS_SWITCH X (dtype out) of
        None \<Rightarrow> (Inl UnsupportedDispatch, s)
      | Some fbits \<Rightarrow>
          if format = kCSC then
            launch X (SpMMCsr XPU IdType fbits op reduce bcast (GetCSCMatrix graph 0)
                        ufeat efeat out out_aux) s
          else if format = kCOO then
            launch X (SpMMCoo XPU IdType fbits op reduce bcast (GetCOOMatrix graph 0)
                        ufeat efeat out out_aux) s
          else (Inl UnsupportedFormat, s)))))"

definition SDDMM ::
  "('b, 's) externals \<Rightarrow> string \<Rightarrow> HeteroGraph \<Rightarrow> NDArray \<Rightarrow> NDArray \<Rightarrow> NDArray \<Rightarrow>
   int \<Rightarrow> int \<Rightarrow> 's \<Rightarrow> ('b, 's) outcome" where
  "SDDMM X op graph lhs rhs out lhs_target rhs_target s =
     (let format = SelectFormat graph 0 coo_code in
      case CalcBcastOff X op lhs rhs of
        Inl e \<Rightarrow> (Inl e, s)
      | Inr bcast \<Rightarrow>
      (case ATEN_XPU_SWITCH_CUDA X (device_type (Context graph)) of
        None \<Rightarrow> (Inl UnsupportedDispatch, s)
      | Some XPU \<Rightarrow>
      (case ATEN_ID_TYPE_SWITCH X (DataType graph) of
        None \<Rightarrow> (Inl UnsupportedDispatch, s)
      | Some IdType \<Rightarrow>
      (case ATEN_FLOAT_BITS_SWITCH X (dtype out) of
        None \<Rightarrow> (Inl UnsupportedDispatch, s)
      | Some fbits \<Rightarrow>
          if format = kCSR then
            launch X (SDDMMCsr XPU IdType fbits op bcast (GetCSRMatrix graph 0)
                        lhs rhs out lhs_target rhs_target) s
          else if format = kCOO then
            launch X (SDDMMCoo XPU IdType fbits op bcast (GetCOOMatrix graph 0)
                        lhs rhs out lhs_target rhs_target) s
          else (Inl UnsupportedFormat, s)))))"

definition GetEdgeMapping :: "HeteroGraph \<Rightarrow> NDArray" where
  "GetEdgeMapping graph =
     (let format = SelectFormat graph 0 csc_code in
      if format = kCSC then data (GetCSCMatrix graph 0) else NullArray)"

definition SegmentReduceDispatch ::
  "('b, 's) externals \<Rightarrow> string \<Rightarrow> NDArray \<Rightarrow> NDArray \<Rightarrow> NDArray \<Rightarrow> NDArray \<Rightarrow> 's \<Rightarrow>
   ('b, 's) outcome" where
  "SegmentReduceDispatch X op feat offsets out arg s =
     (case ATEN_XPU_SWITCH_CUDA X (device_type (ctx feat)) of
        None \<Rightarrow> (Inl UnsupportedDispatch, s)
      | Some XPU \<Rightarrow>
      (case ATEN_ID_TYPE_SWITCH X (dtype offsets) of
        None \<Rightarrow> (Inl UnsupportedDispatch, s)
      | Some IdType \<Rightarrow>
      (case ATEN_FLOAT_BITS_SWITCH X (dtype feat) of
        None \<Rightarrow> (Inl UnsupportedDispatch, s)
      | Some fbits \<Rightarrow>
          launch X (SegmentReduce XPU IdType fbits op feat offsets out arg) s)))"

definition BackwardSegmentCmpDispatch ::
  "('b, 's) externals \<Rightarrow> NDArray \<Rightarrow> NDArray \<Rightarrow> NDArray \<Rightarrow> 's \<Rightarrow> ('b, 's) outcome" where
  "BackwardSegmentCmpDispatch X feat arg out s =
     (case ATEN_XPU_SWITCH_CUDA X (device_type (ctx feat)) of
        None \<Rightarrow> (Inl UnsupportedDispatch, s)
      | Some XPU \<Rightarrow>
      (case ATEN_ID_TYPE_SWITCH X (dtype arg) of
        None \<Rightarrow> (Inl UnsupportedDispatch, s)
      | Some IdType \<Rightarrow>
      (case ATEN_FLOAT_BITS_SWITCH X (dtype feat) of
        None \<Rightarrow> (Inl UnsupportedDispatch, s)
      | Some fbits \<Rightarrow>
          launch X (BackwardSegmentCmp XPU IdType fbits feat arg out) s)))"

subsection \<open>The registered entry points\<close>

definition CAPI_DGLKernelSpMM ::
  "('b, 's) externals \<Rightarrow> HeteroGraph \<Rightarrow> string \<Rightarrow> string \<Rightarrow> NDArray \<Rightarrow> NDArray \<Rightarrow> NDArray \<Rightarrow>
   NDArray \<Rightarrow> NDArray \<Rightarrow> 's \<Rightarrow> ('b, 's) outcome" where
  "CAPI_DGLKernelSpMM X graph op reduce_op U E V ArgU ArgE s =
     (case CheckCtx (Context graph) [U, E, V, ArgU, ArgE]
             [''U_data'', ''E_data'', ''out'', ''Arg_U'', ''Arg_E''] of
        Inl e \<Rightarrow> (Inl e, s)
      | Inr _ \<Rightarrow>
      (case CheckContiguous [U, E, V, ArgU, ArgE]
              [''U_data'', ''E_data'', ''out'', ''Arg_U'', ''Arg_E''] of
        Inl e \<Rightarrow> (Inl e, s)
      | Inr _ \<Rightarrow>
          if NumEdgeTypes graph \<noteq> 1 then (Inl EdgeTypeCount, s)
          else
            (let pair = FindEdge graph 0;
                 src_vtype = fst pair;
                 dst_vtype = snd pair
             in case CheckShape
                       [NumVertices graph src_vtype, NumEdges graph 0,
                        NumVertices graph dst_vtype]
                       [0, 1, 2, 2, 2]
                       [U, E, V, ArgU, ArgE]
                       [''U_data'', ''E_data'', ''out'', ''Arg_U'', ''Arg_E''] of
                  Inl e \<Rightarrow> (Inl e, s)
                | Inr _ \<Rightarrow> SpMM X op reduce_op graph U E V [ArgU, ArgE] s)))"

definition CAPI_DGLKernelSDDMM ::
  "('b, 's) externals \<Rightarrow> HeteroGraph \<Rightarrow> string \<Rightarrow> NDArray \<Rightarrow> NDArray \<Rightarrow> NDArray \<Rightarrow>
   int \<Rightarrow> int \<Rightarrow> 's \<Rightarrow> ('b, 's) outcome" where
  "CAPI_DGLKernelSDDMM X graph op lhs rhs out lhs_target rhs_target s =
     (case CheckCtx (Context graph) [lhs, rhs, out] [''lhs'', ''rhs'', ''out''] of
        Inl e \<Rightarrow> (Inl e, s)
      | Inr _ \<Rightarrow>
      (case CheckContiguous [lhs, rhs, out] [''lhs'', ''rhs'', ''out''] of
        Inl e \<Rightarrow> (Inl e, s)
      | Inr _ \<Rightarrow>
          if NumEdgeTypes graph \<noteq> 1 then (Inl EdgeTypeCount, s)
          else
            (let pair = FindEdge graph 0;
                 src_vtype = fst pair;
                 dst_vtype = snd pair
             in case CheckShape
                       [NumVertices graph src_vtype, NumEdges graph 0,
                        NumVertices graph dst_vtype]
                       [lhs_target, rhs_target, 1]
                       [lhs, rhs, out]
                       [''U_data'', ''E_data'', ''V_data''] of
                  Inl e \<Rightarrow> (Inl e, s)
                | Inr _ \<Rightarrow> SDDMM X op graph lhs rhs out lhs_target rhs_target s)))"

definition CAPI_DGLKernelSegmentReduce ::
  "('b, 's) externals \<Rightarrow> string \<Rightarrow> NDArray \<Rightarrow> NDArray \<Rightarrow> NDArray \<Rightarrow> NDArray \<Rightarrow> 's \<Rightarrow>
   ('b, 's) outcome" where
  "CAPI_DGLKernelSegmentReduce X op feat offsets out arg s =
     (case CheckCtx (ctx feat) [feat, offsets, out] [''feat'', ''offsets'', ''out''] of
        Inl e \<Rightarrow> (Inl e, s)
      | Inr _ \<Rightarrow>
      (case CheckContiguous [feat, offsets, out] [''feat'', ''offsets'', ''out''] of
        Inl e \<Rightarrow> (Inl e, s)
      | Inr _ \<Rightarrow> SegmentReduceDispatch X op feat offsets out arg s))"

definition CAPI_DGLKernelBwdSegmentCmp ::
  "('b, 's) externals \<Rightarrow> NDArray \<Rightarrow> NDArray \<Rightarrow> NDArray \<Rightarrow> 's \<Rightarrow> ('b, 's) outcome" where
  "CAPI_DGLKernelBwdSegmentCmp X feat arg out s =
     (case CheckCtx (ctx feat) [feat, arg, out] [''feat'', ''arg'', ''out''] of
        Inl e \<Rightarrow> (Inl e, s)
      | Inr _ \<Rightarrow>
      (case CheckContiguous [feat, arg, out] [''feat'', ''arg'', ''out''] of
        Inl e \<Rightarrow> (Inl e, s)
      | Inr _ \<Rightarrow> BackwardSegmentCmpDispatch X feat arg out s))"

definition CAPI_DGLKernelGetEdgeMapping :: "HeteroGraph \<Rightarrow> NDArray" where
  "CAPI_DGLKernelGetEdgeMapping graph = GetEdgeMapping graph"


subsection \<open>The edge-mapping query as the specification words it\<close>

text \<open>
  The specification asks the query for the permutation that takes the canonical edge
  order to the physical order of whichever format the selector returns, and for the
  null result when that format needs none: the edge mapping that format carries.
\<close>

definition spec_GetEdgeMapping :: "HeteroGraph \<Rightarrow> NDArray" where
  "spec_GetEdgeMapping graph =
     (case SelectFormat graph 0 csc_code of
        kCSC \<Rightarrow> data (GetCSCMatrix graph 0)
      | kCSR \<Rightarrow> data (GetCSRMatrix graph 0)
      | kCOO \<Rightarrow> coo_data (GetCOOMatrix graph 0))"

subsection \<open>Concrete operands\<close>

text \<open>
  Modelled from the spec: one instance of the external collaborators, used to run the
  functions above on concrete calls. The switch macros accept exactly the enumerations
  of the spec (device types 1 and 2 are host and accelerator; type codes 0, 2 and 4 are
  integer, float and the reduced-range float). The resolver accepts every pair of
  operands, and the store is the list of kernel invocations made so far.
\<close>

definition kDLCPU :: int where "kDLCPU = 1"
definition kDLGPU :: int where "kDLGPU = 2"
definition kDLInt :: nat where "kDLInt = 0"
definition kDLFloat :: nat where "kDLFloat = 2"
definition kDLBfloat :: nat where "kDLBfloat = 4"

definition xpu_switch :: "int \<Rightarrow> backend option" where
  "xpu_switch d =
     (if d = kDLCPU then Some Host else if d = kDLGPU then Some Accelerator else None)"

definition id_type_switch :: "DLDataType \<Rightarrow> index_width option" where
  "id_type_switch t =
     (if code t \<noteq> kDLInt then None
      else if bits t = 32 then Some Int32
      else if bits t = 64 then Some Int64
      else None)"

definition float_bits_switch :: "DLDataType \<Rightarrow> float_precision option" where
  "float_bits_switch t =
     (if code t = kDLBfloat \<and> bits t = 16 then Some BFloat16
      else if code t \<noteq> kDLFloat then None
      else if bits t = 16 then Some Float16
      else if bits t = 32 then Some Float32
      else if bits t = 64 then Some Float64
      else None)"

definition logging :: "(unit, unit kernel_call list) externals" where
  "logging =
     \<lparr>ATEN_XPU_SWITCH_CUDA = xpu_switch,
      ATEN_ID_TYPE_SWITCH = id_type_switch,
      ATEN_FLOAT_BITS_SWITCH = float_bits_switch,
      CalcBcastOff = (\<lambda>op lhs rhs. Inr ()),
      kernel = (\<lambda>k s. s @ [k])\<rparr>"

definition host :: DLContext where
  "host = \<lparr>device_type = kDLCPU, device_id = 0\<rparr>"

definition device :: DLContext where
  "device = \<lparr>device_type = kDLGPU, device_id = 0\<rparr>"

definition float32 :: DLDataType where
  "float32 = \<lparr>code = kDLFloat, bits = 32, lanes = 1\<rparr>"


definition int16 :: DLDataType where
  "int16 = \<lparr>code = kDLInt, bits = 16, lanes = 1\<rparr>"


definition int64 :: DLDataType where
  "int64 = \<lparr>code = kDLInt, bits = 64, lanes = 1\<rparr>"

definition tensor :: "DLContext \<Rightarrow> DLDataType \<Rightarrow> 64 word list \<Rightarrow> NDArray" where
  "tensor c t sh = \<lparr>is_null = False, ctx = c, dtype = t, shape = sh, IsContiguous = True\<rparr>"

definition strided :: "NDArray \<Rightarrow> NDArray" where
  "strided a = a\<lparr>IsContiguous := False\<rparr>"

text \<open>
  A graph on the host with one edge type from vertex type 0 (three vertices) to vertex
  type 1 (two vertices) and four edges; \<open>fmt\<close> is the format its selector returns, and
  its compressed-by-source and coordinate-list adjacencies carry the edge mapping \<open>m\<close>.
\<close>

definition graph_of :: "SparseFormat \<Rightarrow> NDArray \<Rightarrow> HeteroGraph" where
  "graph_of fmt m =
     \<lparr>Context = host, DataType = int64, NumEdgeTypes = 1,
      FindEdge = (\<lambda>etype. (0, 1)),
      NumVertices = (\<lambda>vtype. if vtype = 0 then 3 else 2),
      NumEdges = (\<lambda>etype. 4),
      SelectFormat = (\<lambda>etype preferred. fmt),
      GetCSCMatrix = (\<lambda>etype. \<lparr>indptr = NullArray, indices = NullArray, data = NullArray\<rparr>),
      GetCSRMatrix = (\<lambda>etype. \<lparr>indptr = NullArray, indices = NullArray, data = m\<rparr>),
      GetCOOMatrix = (\<lambda>etype. \<lparr>row = NullArray, col = NullArray, coo_data = m\<rparr>)\<rparr>"

section \<open>Properties\<close>

subsection \<open>The checks, tensor by tensor\<close>

lemma CheckCtx_Inr_iff:
  "length arrays \<le> length names \<Longrightarrow>
   CheckCtx c arrays names = Inr () \<longleftrightarrow> (\<forall>a\<in>set arrays. ctx_ok c a)"
proof (induction c arrays names rule: CheckCtx.induct)
  case (1 c a arrays n names)
  then show ?case by (auto simp: ctx_ok_def)
qed simp_all

lemma CheckCtx_Inl:
  "CheckCtx c arrays names = Inl e \<Longrightarrow> \<exists>n. e = ContextMismatch n"
  by (induction c arrays names rule: CheckCtx.induct) (auto split: if_splits)

lemma CheckContiguous_Inr_iff:
  "length arrays \<le> length names \<Longrightarrow>
   CheckContiguous arrays names = Inr () \<longleftrightarrow> (\<forall>a\<in>set arrays. contiguous_ok a)"
proof (induction arrays names rule: CheckContiguous.induct)
  case (1 a arrays n names)
  then show ?case by (auto simp: contiguous_ok_def)
qed simp_all

lemma CheckContiguous_Inl:
  "CheckContiguous arrays names = Inl e \<Longrightarrow> \<exists>n. e = NotContiguous n"
  by (induction arrays names rule: CheckContiguous.induct) (auto split: if_splits)

lemma CheckShape_Inr_iff:
  "length arrays \<le> length names \<Longrightarrow> length arrays \<le> length uev_idx \<Longrightarrow>
   CheckShape gdim uev_idx arrays names = Inr () \<longleftrightarrow>
     (\<forall>(u, a)\<in>set (zip uev_idx arrays).
         IsNullArray a \<or> (2 \<le> ndim a \<and> gdim_at gdim u = Some (hd (shape a))))"
proof (induction gdim uev_idx arrays names rule: CheckShape.induct)
  case (1 gdim u uev_idx a arrays n names)
  then show ?case by (auto split: option.splits)
qed simp_all

lemma CheckShape_Inl:
  "CheckShape gdim uev_idx arrays names = Inl e \<Longrightarrow>
   \<forall>u\<in>set uev_idx. 0 \<le> u \<and> nat u < length gdim \<Longrightarrow> \<exists>n. e = ShapeMismatch n"
  by (induction gdim uev_idx arrays names rule: CheckShape.induct)
     (auto split: if_splits option.splits simp: gdim_at_def)

lemma not_Inr_unit: "r \<noteq> Inr () \<Longrightarrow> \<exists>e. r = Inl e"
  by (cases r) auto

lemma gdim_at_3:
  "t \<in> {0, 1, 2} \<Longrightarrow>
   gdim_at [NumVertices graph (fst (FindEdge graph 0)), NumEdges graph 0,
            NumVertices graph (snd (FindEdge graph 0))] t = Some (target_count graph t)"
  by (auto simp: gdim_at_def target_count_def src_count_def edge_count_def dst_count_def)

subsection \<open>The entry points, check by check\<close>



lemma shape_ok_unfold:
  "(IsNullArray a \<or> 2 \<le> ndim a \<and> c = hd (shape a)) \<longleftrightarrow> shape_ok c a"
  by (auto simp: shape_ok_def)

lemma target_count_simps:
  "target_count graph 0 = src_count graph"
  "target_count graph 1 = edge_count graph"
  "target_count graph 2 = dst_count graph"
  by (simp_all add: target_count_def)

lemma SpMM_shape_iff:
  "CheckShape [NumVertices graph (fst (FindEdge graph 0)), NumEdges graph 0,
               NumVertices graph (snd (FindEdge graph 0))]
      [0, 1, 2, 2, 2] [U, E, V, ArgU, ArgE]
      [''U_data'', ''E_data'', ''out'', ''Arg_U'', ''Arg_E''] = Inr () \<longleftrightarrow>
   shape_ok (src_count graph) U \<and> shape_ok (edge_count graph) E \<and>
   shape_ok (dst_count graph) V \<and> shape_ok (dst_count graph) ArgU \<and>
   shape_ok (dst_count graph) ArgE"
  by (simp add: CheckShape_Inr_iff gdim_at_3 shape_ok_unfold target_count_simps
        del: CheckShape.simps)

lemma SDDMM_shape_iff:
  "lhs_target \<in> {0, 1, 2} \<Longrightarrow> rhs_target \<in> {0, 1, 2} \<Longrightarrow>
   CheckShape [NumVertices graph (fst (FindEdge graph 0)), NumEdges graph 0,
               NumVertices graph (snd (FindEdge graph 0))]
      [lhs_target, rhs_target, 1] [lhs, rhs, out]
      [''U_data'', ''E_data'', ''V_data''] = Inr () \<longleftrightarrow>
   shape_ok (target_count graph lhs_target) lhs \<and>
   shape_ok (target_count graph rhs_target) rhs \<and>
   shape_ok (edge_count graph) out"
  using gdim_at_3 [of lhs_target graph] gdim_at_3 [of rhs_target graph]
  by (simp add: CheckShape_Inr_iff gdim_at_3 shape_ok_unfold target_count_simps
        del: CheckShape.simps)

lemma CAPI_DGLKernelSpMM_outcome:
  "(\<not> (\<forall>t\<in>set [U, E, V, ArgU, ArgE]. ctx_ok (Context graph) t) \<longrightarrow>
      (\<exists>n. CAPI_DGLKernelSpMM X graph op reduce_op U E V ArgU ArgE s =
             (Inl (ContextMismatch n), s))) \<and>
   ((\<forall>t\<in>set [U, E, V, ArgU, ArgE]. ctx_ok (Context graph) t) \<longrightarrow>
    (\<not> (\<forall>t\<in>set [U, E, V, ArgU, ArgE]. contiguous_ok t) \<longrightarrow>
      (\<exists>n. CAPI_DGLKernelSpMM X graph op reduce_op U E V ArgU ArgE s =
             (Inl (NotContiguous n), s))) \<and>
    ((\<forall>t\<in>set [U, E, V, ArgU, ArgE]. contiguous_ok t) \<longrightarrow>
     (NumEdgeTypes graph \<noteq> 1 \<longrightarrow>
        CAPI_DGLKernelSpMM X graph op reduce_op U E V ArgU ArgE s = (Inl EdgeTypeCount, s)) \<and>
     (NumEdgeTypes graph = 1 \<longrightarrow>
      (\<not> (shape_ok (src_count graph) U \<and> shape_ok (edge_count graph) E \<and>
          shape_ok (dst_count graph) V \<and> shape_ok (dst_count graph) ArgU \<and>
          shape_ok (dst_count graph) ArgE) \<longrightarrow>
        (\<exists>n. CAPI_DGLKernelSpMM X graph op reduce_op U E V ArgU ArgE s =
               (Inl (ShapeMismatch n), s))) \<and>
      (shape_ok (src_count graph) U \<and> shape_ok (edge_count graph) E \<and>
       shape_ok (dst_count graph) V \<and> shape_ok (dst_count graph) ArgU \<and>
       shape_ok (dst_count graph) ArgE \<longrightarrow>
        CAPI_DGLKernelSpMM X graph op reduce_op U E V ArgU ArgE s =
        SpMM X op reduce_op graph U E V [ArgU, ArgE] s))))"
proof -
  let ?names = "[''U_data'', ''E_data'', ''out'', ''Arg_U'', ''Arg_E'']"
  let ?c = "CheckCtx (Context graph) [U, E, V, ArgU, ArgE] ?names"
  let ?k = "CheckContiguous [U, E, V, ArgU, ArgE] ?names"
  let ?h = "CheckShape [NumVertices graph (fst (FindEdge graph 0)), NumEdges graph 0,
               NumVertices graph (snd (FindEdge graph 0))]
      [0, 1, 2, 2, 2] [U, E, V, ArgU, ArgE] ?names"
  have c: "?c = Inr () \<longleftrightarrow> (\<forall>t\<in>set [U, E, V, ArgU, ArgE]. ctx_ok (Context graph) t)"
    by (rule CheckCtx_Inr_iff) simp
  have k: "?k = Inr () \<longleftrightarrow> (\<forall>t\<in>set [U, E, V, ArgU, ArgE]. contiguous_ok t)"
    by (rule CheckContiguous_Inr_iff) simp
  note h = SpMM_shape_iff [of graph U E V ArgU ArgE]
  have ce: "\<exists>n. e = ContextMismatch n" if "?c = Inl e" for e
    using that by (rule CheckCtx_Inl)
  have ke: "\<exists>n. e = NotContiguous n" if "?k = Inl e" for e
    using that by (rule CheckContiguous_Inl)
  have he: "\<exists>n. e = ShapeMismatch n" if "?h = Inl e" for e
    using that by (rule CheckShape_Inl) simp
  show ?thesis
    unfolding CAPI_DGLKernelSpMM_def Let_def c [symmetric] k [symmetric] h [symmetric]
    using ce ke he
    by (cases ?c; cases ?k; cases ?h)
       (auto simp del: CheckCtx.simps CheckContiguous.simps CheckShape.simps)
qed

lemma CAPI_DGLKernelSDDMM_outcome:
  "lhs_target \<in> {0, 1, 2} \<Longrightarrow> rhs_target \<in> {0, 1, 2} \<Longrightarrow>
   (\<not> (\<forall>t\<in>set [lhs, rhs, out]. ctx_ok (Context graph) t) \<longrightarrow>
      (\<exists>n. CAPI_DGLKernelSDDMM X graph op lhs rhs out lhs_target rhs_target s =
             (Inl (ContextMismatch n), s))) \<and>
   ((\<forall>t\<in>set [lhs, rhs, out]. ctx_ok (Context graph) t) \<longrightarrow>
    (\<not> (\<forall>t\<in>set [lhs, rhs, out]. contiguous_ok t) \<longrightarrow>
      (\<exists>n. CAPI_DGLKernelSDDMM X graph op lhs rhs out lhs_target rhs_target s =
             (Inl (NotContiguous n), s))) \<and>
    ((\<forall>t\<in>set [lhs, rhs, out]. contiguous_ok t) \<longrightarrow>
     (NumEdgeTypes graph \<noteq> 1 \<longrightarrow>
        CAPI_DGLKernelSDDMM X graph op lhs rhs out lhs_target rhs_target s =
        (Inl EdgeTypeCount, s)) \<and>
     (NumEdgeTypes graph = 1 \<longrightarrow>
      (\<not> (shape_ok (target_count graph lhs_target) lhs \<and>
          shape_ok (target_count graph rhs_target) rhs \<and>
          shape_ok (edge_count graph) out) \<longrightarrow>
        (\<exists>n. CAPI_DGLKernelSDDMM X graph op lhs rhs out lhs_target rhs_target s =
               (Inl (ShapeMismatch n), s))) \<and>
      (shape_ok (target_count graph lhs_target) lhs \<and>
       shape_ok (target_count graph rhs_target) rhs \<and>
       shape_ok (edge_count graph) out \<longrightarrow>
        CAPI_DGLKernelSDDMM X graph op lhs rhs out lhs_target rhs_target s =
        SDDMM X op graph lhs rhs out lhs_target rhs_target s))))"
proof -
  assume t: "lhs_target \<in> {0, 1, 2}" "rhs_target \<in> {0, 1, 2}"
  let ?names = "[''lhs'', ''rhs'', ''out'']"
  let ?c = "CheckCtx (Context graph) [lhs, rhs, out] ?names"
  let ?k = "CheckContiguous [lhs, rhs, out] ?names"
  let ?h = "CheckShape [NumVertices graph (fst (FindEdge graph 0)), NumEdges graph 0,
               NumVertices graph (snd (FindEdge graph 0))]
      [lhs_target, rhs_target, 1] [lhs, rhs, out] [''U_data'', ''E_data'', ''V_data'']"
  have c: "?c = Inr () \<longleftrightarrow> (\<forall>t\<in>set [lhs, rhs, out]. ctx_ok (Context graph) t)"
    by (rule CheckCtx_Inr_iff) simp
  have k: "?k = Inr () \<longleftrightarrow> (\<forall>t\<in>set [lhs, rhs, out]. contiguous_ok t)"
    by (rule CheckContiguous_Inr_iff) simp
  note h = SDDMM_shape_iff [OF t, of graph lhs rhs out]
  have ce: "\<exists>n. e = ContextMismatch n" if "?c = Inl e" for e
    using that by (rule CheckCtx_Inl)
  have ke: "\<exists>n. e = NotContiguous n" if "?k = Inl e" for e
    using that by (rule CheckContiguous_Inl)
  have he: "\<exists>n. e = ShapeMismatch n" if "?h = Inl e" for e
    using t by (intro CheckShape_Inl [OF that]) auto
  show ?thesis
    unfolding CAPI_DGLKernelSDDMM_def Let_def c [symmetric] k [symmetric] h [symmetric]
    using ce ke he
    by (cases ?c; cases ?k; cases ?h)
       (auto simp del: CheckCtx.simps CheckContiguous.simps CheckShape.simps)
qed

lemma CAPI_DGLKernelSegmentReduce_outcome:
  "(\<not> (\<forall>t\<in>set [feat, offsets, out]. ctx_ok (ctx feat) t) \<longrightarrow>
      (\<exists>n. CAPI_DGLKernelSegmentReduce X op feat offsets out arg s =
             (Inl (ContextMismatch n), s))) \<and>
   ((\<forall>t\<in>set [feat, offsets, out]. ctx_ok (ctx feat) t) \<longrightarrow>
    (\<not> (\<forall>t\<in>set [feat, offsets, out]. contiguous_ok t) \<longrightarrow>
      (\<exists>n. CAPI_DGLKernelSegmentReduce X op feat offsets out arg s =
             (Inl (NotContiguous n), s))) \<and>
    ((\<forall>t\<in>set [feat, offsets, out]. contiguous_ok t) \<longrightarrow>
        CAPI_DGLKernelSegmentReduce X op feat offsets out arg s =
        SegmentReduceDispatch X op feat offsets out arg s))"
proof -
  let ?names = "[''feat'', ''offsets'', ''out'']"
  let ?c = "CheckCtx (ctx feat) [feat, offsets, out] ?names"
  let ?k = "CheckContiguous [feat, offsets, out] ?names"
  have c: "?c = Inr () \<longleftrightarrow> (\<forall>t\<in>set [feat, offsets, out]. ctx_ok (ctx feat) t)"
    by (rule CheckCtx_Inr_iff) simp
  have k: "?k = Inr () \<longleftrightarrow> (\<forall>t\<in>set [feat, offsets, out]. contiguous_ok t)"
    by (rule CheckContiguous_Inr_iff) simp
  have ce: "\<exists>n. e = ContextMismatch n" if "?c = Inl e" for e
    using that by (rule CheckCtx_Inl)
  have ke: "\<exists>n. e = NotContiguous n" if "?k = Inl e" for e
    using that by (rule CheckContiguous_Inl)
  show ?thesis
    unfolding CAPI_DGLKernelSegmentReduce_def c [symmetric] k [symmetric]
    using ce ke
    by (cases ?c; cases ?k)
       (auto simp del: CheckCtx.simps CheckContiguous.simps)
qed

lemma CAPI_DGLKernelBwdSegmentCmp_outcome:
  "(\<not> (\<forall>t\<in>set [feat, arg, out]. ctx_ok (ctx feat) t) \<longrightarrow>
      (\<exists>n. CAPI_DGLKernelBwdSegmentCmp X feat arg out s =
             (Inl (ContextMismatch n), s))) \<and>
   ((\<forall>t\<in>set [feat, arg, out]. ctx_ok (ctx feat) t) \<longrightarrow>
    (\<not> (\<forall>t\<in>set [feat, arg, out]. contiguous_ok t) \<longrightarrow>
      (\<exists>n. CAPI_DGLKernelBwdSegmentCmp X feat arg out s =
             (Inl (NotContiguous n), s))) \<and>
    ((\<forall>t\<in>set [feat, arg, out]. contiguous_ok t) \<longrightarrow>
        CAPI_DGLKernelBwdSegmentCmp X feat arg out s =
        BackwardSegmentCmpDispatch X feat arg out s))"
proof -
  let ?names = "[''feat'', ''arg'', ''out'']"
  let ?c = "CheckCtx (ctx feat) [feat, arg, out] ?names"
  let ?k = "CheckContiguous [feat, arg, out] ?names"
  have c: "?c = Inr () \<longleftrightarrow> (\<forall>t\<in>set [feat, arg, out]. ctx_ok (ctx feat) t)"
    by (rule CheckCtx_Inr_iff) simp
  have k: "?k = Inr () \<longleftrightarrow> (\<forall>t\<in>set [feat, arg, out]. contiguous_ok t)"
    by (rule CheckContiguous_Inr_iff) simp
  have ce: "\<exists>n. e = ContextMismatch n" if "?c = Inl e" for e
    using that by (rule CheckCtx_Inl)
  have ke: "\<exists>n. e = NotContiguous n" if "?k = Inl e" for e
    using that by (rule CheckContiguous_Inl)
  show ?thesis
    unfolding CAPI_DGLKernelBwdSegmentCmp_def c [symmetric] k [symmetric]
    using ce ke
    by (cases ?c; cases ?k)
       (auto simp del: CheckCtx.simps CheckContiguous.simps)
qed

subsection \<open>The dispatch functions\<close>

lemma SpMM_outcome:
  "(\<exists>e. SpMM X op reduce graph ufeat efeat out out_aux s = (Inl e, s)) \<or>
   (\<exists>k. SpMM X op reduce graph ufeat efeat out out_aux s = (Inr k, kernel X k s))"
  by (simp add: SpMM_def launch_def Let_def split: sum.splits option.splits)

lemma SDDMM_outcome:
  "(\<exists>e. SDDMM X op graph lhs rhs out lhs_target rhs_target s = (Inl e, s)) \<or>
   (\<exists>k. SDDMM X op graph lhs rhs out lhs_target rhs_target s = (Inr k, kernel X k s))"
  by (simp add: SDDMM_def launch_def Let_def split: sum.splits option.splits)

lemma SegmentReduceDispatch_outcome:
  "SegmentReduceDispatch X op feat offsets out arg s = (Inl UnsupportedDispatch, s) \<or>
   (\<exists>k. SegmentReduceDispatch X op feat offsets out arg s = (Inr k, kernel X k s))"
  by (simp add: SegmentReduceDispatch_def launch_def split: option.splits)

lemma BackwardSegmentCmpDispatch_outcome:
  "BackwardSegmentCmpDispatch X feat arg out s = (Inl UnsupportedDispatch, s) \<or>
   (\<exists>k. BackwardSegmentCmpDispatch X feat arg out s = (Inr k, kernel X k s))"
  by (simp add: BackwardSegmentCmpDispatch_def launch_def split: option.splits)

text \<open>
  Once the resolver and the three switches have succeeded, the outcome of a dispatch
  function is fixed: the kernel it launches, with the three switch results as template
  arguments, or for SpMM and SDDMM the format error.
\<close>

lemma SpMM_resolved:
  "CalcBcastOff X op ufeat efeat = Inr bcast \<Longrightarrow>
   ATEN_XPU_SWITCH_CUDA X (device_type (Context graph)) = Some XPU \<Longrightarrow>
   ATEN_ID_TYPE_SWITCH X (DataType graph) = Some IdType \<Longrightarrow>
   ATEN_FLOAT_BITS_SWITCH X (dtype out) = Some fbits \<Longrightarrow>
   SpMM X op reduce graph ufeat efeat out out_aux s =
     (case SelectFormat graph 0 csc_code of
        kCSC \<Rightarrow>
          (Inr (SpMMCsr XPU IdType fbits op reduce bcast (GetCSCMatrix graph 0)
                  ufeat efeat out out_aux),
           kernel X (SpMMCsr XPU IdType fbits op reduce bcast (GetCSCMatrix graph 0)
                  ufeat efeat out out_aux) s)
      | kCOO \<Rightarrow>
          (Inr (SpMMCoo XPU IdType fbits op reduce bcast (GetCOOMatrix graph 0)
                  ufeat efeat out out_aux),
           kernel X (SpMMCoo XPU IdType fbits op reduce bcast (GetCOOMatrix graph 0)
                  ufeat efeat out out_aux) s)
      | kCSR \<Rightarrow> (Inl UnsupportedFormat, s))"
  by (simp add: SpMM_def launch_def Let_def split: SparseFormat.splits)

lemma SDDMM_resolved:
  "CalcBcastOff X op lhs rhs = Inr bcast \<Longrightarrow>
   ATEN_XPU_SWITCH_CUDA X (device_type (Context graph)) = Some XPU \<Longrightarrow>
   ATEN_ID_TYPE_SWITCH X (DataType graph) = Some IdType \<Longrightarrow>
   ATEN_FLOAT_BITS_SWITCH X (dtype out) = Some fbits \<Longrightarrow>
   SDDMM X op graph lhs rhs out lhs_target rhs_target s =
     (case SelectFormat graph 0 coo_code of
        kCSR \<Rightarrow>
          (Inr (SDDMMCsr XPU IdType fbits op bcast (GetCSRMatrix graph 0)
                  lhs rhs out lhs_target rhs_target),
           kernel X (SDDMMCsr XPU IdType fbits op bcast (GetCSRMatrix graph 0)
                  lhs rhs out lhs_target rhs_target) s)
      | kCOO \<Rightarrow>
          (Inr (SDDMMCoo XPU IdType fbits op bcast (GetCOOMatrix graph 0)
                  lhs rhs out lhs_target rhs_target),
           kernel X (SDDMMCoo XPU IdType fbits op bcast (GetCOOMatrix graph 0)
                  lhs rhs out lhs_target rhs_target) s)
      | kCSC \<Rightarrow> (Inl UnsupportedFormat, s))"
  by (simp add: SDDMM_def launch_def Let_def split: SparseFormat.splits)



subsection \<open>An entry point fails or hands over to its dispatch function\<close>

lemma CAPI_DGLKernelSpMM_cases:
  "(\<exists>e. CAPI_DGLKernelSpMM X graph op reduce_op U E V ArgU ArgE s = (Inl e, s)) \<or>
   CAPI_DGLKernelSpMM X graph op reduce_op U E V ArgU ArgE s =
   SpMM X op reduce_op graph U E V [ArgU, ArgE] s"
  using CAPI_DGLKernelSpMM_outcome [of U E V ArgU ArgE graph X op reduce_op s]
  by (cases "NumEdgeTypes graph = 1") metis+

lemma CAPI_DGLKernelSDDMM_cases:
  "lhs_target \<in> {0, 1, 2} \<Longrightarrow> rhs_target \<in> {0, 1, 2} \<Longrightarrow>
   (\<exists>e. CAPI_DGLKernelSDDMM X graph op lhs rhs out lhs_target rhs_target s = (Inl e, s)) \<or>
   CAPI_DGLKernelSDDMM X graph op lhs rhs out lhs_target rhs_target s =
   SDDMM X op graph lhs rhs out lhs_target rhs_target s"
  using CAPI_DGLKernelSDDMM_outcome [of lhs_target rhs_target lhs rhs out graph X op s]
  by (cases "NumEdgeTypes graph = 1") metis+

subsection \<open>No partial output\<close>

text \<open>
  Claim C1. For each of the four entry points (SpMM, SDDMM, SegmentReduce,
  BackwardSegmentCmp) a call ends in one of two ways. Either it fails, and then the store
  of caller-owned buffers is the one the call started with; or every check of the entry
  point has passed (context and contiguity of the checked operands, and for SpMM and
  SDDMM the single edge type and the shapes), and the store is the result of one kernel
  on the store the call started with. So every validation error is raised before a
  kernel is invoked, and a failed call leaves the buffers unchanged. For SDDMM the two
  targets are role indices, 0, 1 or 2.
\<close>

theorem validation_failure_leaves_buffers:
  "((\<exists>e. CAPI_DGLKernelSpMM X graph op reduce_op U E V ArgU ArgE s = (Inl e, s)) \<or>
    ((\<forall>t\<in>set [U, E, V, ArgU, ArgE]. ctx_ok (Context graph) t \<and> contiguous_ok t) \<and>
     NumEdgeTypes graph = 1 \<and>
     shape_ok (src_count graph) U \<and> shape_ok (edge_count graph) E \<and>
     shape_ok (dst_count graph) V \<and> shape_ok (dst_count graph) ArgU \<and>
     shape_ok (dst_count graph) ArgE \<and>
     (\<exists>k. CAPI_DGLKernelSpMM X graph op reduce_op U E V ArgU ArgE s =
            (Inr k, kernel X k s)))) \<and>
   (lhs_target \<in> {0, 1, 2} \<and> rhs_target \<in> {0, 1, 2} \<longrightarrow>
    (\<exists>e. CAPI_DGLKernelSDDMM X graph' op' lhs rhs out lhs_target rhs_target sb =
           (Inl e, sb)) \<or>
    ((\<forall>t\<in>set [lhs, rhs, out]. ctx_ok (Context graph') t \<and> contiguous_ok t) \<and>
     NumEdgeTypes graph' = 1 \<and>
     shape_ok (target_count graph' lhs_target) lhs \<and>
     shape_ok (target_count graph' rhs_target) rhs \<and>
     shape_ok (edge_count graph') out \<and>
     (\<exists>k. CAPI_DGLKernelSDDMM X graph' op' lhs rhs out lhs_target rhs_target sb =
            (Inr k, kernel X k sb)))) \<and>
   ((\<exists>e. CAPI_DGLKernelSegmentReduce X rop feat offsets rout arg sc = (Inl e, sc)) \<or>
    ((\<forall>t\<in>set [feat, offsets, rout]. ctx_ok (ctx feat) t \<and> contiguous_ok t) \<and>
     (\<exists>k. CAPI_DGLKernelSegmentReduce X rop feat offsets rout arg sc =
            (Inr k, kernel X k sc)))) \<and>
   ((\<exists>e. CAPI_DGLKernelBwdSegmentCmp X bfeat barg bout sd = (Inl e, sd)) \<or>
    ((\<forall>t\<in>set [bfeat, barg, bout]. ctx_ok (ctx bfeat) t \<and> contiguous_ok t) \<and>
     (\<exists>k. CAPI_DGLKernelBwdSegmentCmp X bfeat barg bout sd =
            (Inr k, kernel X k sd))))"
proof (intro conjI impI)
  show "(\<exists>e. CAPI_DGLKernelSpMM X graph op reduce_op U E V ArgU ArgE s = (Inl e, s)) \<or>
    ((\<forall>t\<in>set [U, E, V, ArgU, ArgE]. ctx_ok (Context graph) t \<and> contiguous_ok t) \<and>
     NumEdgeTypes graph = 1 \<and>
     shape_ok (src_count graph) U \<and> shape_ok (edge_count graph) E \<and>
     shape_ok (dst_count graph) V \<and> shape_ok (dst_count graph) ArgU \<and>
     shape_ok (dst_count graph) ArgE \<and>
     (\<exists>k. CAPI_DGLKernelSpMM X graph op reduce_op U E V ArgU ArgE s =
            (Inr k, kernel X k s)))"
    using CAPI_DGLKernelSpMM_outcome [of U E V ArgU ArgE graph X op reduce_op s]
          SpMM_outcome [of X op reduce_op graph U E V "[ArgU, ArgE]" s]
    by (cases "NumEdgeTypes graph = 1") metis+
next
  assume "lhs_target \<in> {0, 1, 2} \<and> rhs_target \<in> {0, 1, 2}"
  then have t: "lhs_target \<in> {0, 1, 2}" "rhs_target \<in> {0, 1, 2}" by simp_all
  show "(\<exists>e. CAPI_DGLKernelSDDMM X graph' op' lhs rhs out lhs_target rhs_target sb =
           (Inl e, sb)) \<or>
    ((\<forall>t\<in>set [lhs, rhs, out]. ctx_ok (Context graph') t \<and> contiguous_ok t) \<and>
     NumEdgeTypes graph' = 1 \<and>
     shape_ok (target_count graph' lhs_target) lhs \<and>
     shape_ok (target_count graph' rhs_target) rhs \<and>
     shape_ok (edge_count graph') out \<and>
     (\<exists>k. CAPI_DGLKernelSDDMM X graph' op' lhs rhs out lhs_target rhs_target sb =
            (Inr k, kernel X k sb)))"
    using CAPI_DGLKernelSDDMM_outcome [OF t, of lhs rhs out graph' X op' sb]
          SDDMM_outcome [of X op' graph' lhs rhs out lhs_target rhs_target sb]
    by (cases "NumEdgeTypes graph' = 1") metis+
next
  show "(\<exists>e. CAPI_DGLKernelSegmentReduce X rop feat offsets rout arg sc = (Inl e, sc)) \<or>
    ((\<forall>t\<in>set [feat, offsets, rout]. ctx_ok (ctx feat) t \<and> contiguous_ok t) \<and>
     (\<exists>k. CAPI_DGLKernelSegmentReduce X rop feat offsets rout arg sc =
            (Inr k, kernel X k sc)))"
    using CAPI_DGLKernelSegmentReduce_outcome [of feat offsets rout X rop arg sc]
          SegmentReduceDispatch_outcome [of X rop feat offsets rout arg sc]
    by metis
next
  show "(\<exists>e. CAPI_DGLKernelBwdSegmentCmp X bfeat barg bout sd = (Inl e, sd)) \<or>
    ((\<forall>t\<in>set [bfeat, barg, bout]. ctx_ok (ctx bfeat) t \<and> contiguous_ok t) \<and>
     (\<exists>k. CAPI_DGLKernelBwdSegmentCmp X bfeat barg bout sd =
            (Inr k, kernel X k sd)))"
    using CAPI_DGLKernelBwdSegmentCmp_outcome [of bfeat barg bout X sd]
          BackwardSegmentCmpDispatch_outcome [of X bfeat barg bout sd]
    by metis
qed

theorem validation_failure_leaves_buffers_witness:
  "(\<exists>e. CAPI_DGLKernelSpMM logging (graph_of kCSC NullArray) ''add'' ''sum''
          (tensor host float32 [3, 5]) (tensor host float32 [4, 5])
          (strided (tensor host float32 [2, 5])) NullArray NullArray [] = (Inl e, [])) \<and>
   (0 :: int) \<in> {0, 1, 2} \<and> (2 :: int) \<in> {0, 1, 2} \<and>
   (\<exists>e. CAPI_DGLKernelSDDMM logging (graph_of kCOO NullArray) ''dot''
          (tensor device float32 [3, 5]) (tensor host float32 [2, 5])
          (tensor host float32 [4, 1]) 0 2 [] = (Inl e, [])) \<and>
   (\<exists>e. CAPI_DGLKernelSegmentReduce logging ''sum'' (tensor host float32 [4, 5])
          (strided (tensor host int64 [3])) (tensor host float32 [2, 5]) NullArray [] =
          (Inl e, [])) \<and>
   (\<exists>e. CAPI_DGLKernelBwdSegmentCmp logging (tensor host float32 [2, 5])
          (tensor device int64 [2, 5]) (tensor host float32 [4, 5]) [] = (Inl e, []))"
  using validation_failure_leaves_buffers
    [where X = logging and graph = "graph_of kCSC NullArray" and op = "''add''"
       and reduce_op = "''sum''" and U = "tensor host float32 [3, 5]"
       and E = "tensor host float32 [4, 5]" and V = "strided (tensor host float32 [2, 5])"
       and ArgU = NullArray and ArgE = NullArray and s = "[]"
       and graph' = "graph_of kCOO NullArray" and op' = "''dot''"
       and lhs = "tensor device float32 [3, 5]" and rhs = "tensor host float32 [2, 5]"
       and out = "tensor host float32 [4, 1]" and lhs_target = 0 and rhs_target = 2
       and sb = "[]" and rop = "''sum''" and feat = "tensor host float32 [4, 5]"
       and offsets = "strided (tensor host int64 [3])"
       and rout = "tensor host float32 [2, 5]" and arg = NullArray and sc = "[]"
       and bfeat = "tensor host float32 [2, 5]" and barg = "tensor device int64 [2, 5]"
       and bout = "tensor host float32 [4, 5]" and sd = "[]"]
  by (simp add: ctx_ok_def contiguous_ok_def IsNullArray_def strided_def tensor_def
        graph_of_def host_def device_def kDLCPU_def kDLGPU_def)

subsection \<open>Shapes, role by role\<close>

lemma shape_ok_violation:
  "\<not> IsNullArray t \<Longrightarrow> ndim t < 2 \<or> hd (shape t) \<noteq> cnt \<Longrightarrow> \<not> shape_ok cnt t"
  by (auto simp: shape_ok_def)

lemma CheckShape_rejects:
  assumes "length arrays \<le> length names" and "length arrays \<le> length uev_idx"
    and "\<forall>u\<in>set uev_idx. 0 \<le> u \<and> nat u < length gdim"
    and "i < length arrays" and "\<not> IsNullArray (arrays ! i)"
    and "ndim (arrays ! i) < 2 \<or> hd (shape (arrays ! i)) \<noteq> gdim ! nat (uev_idx ! i)"
  shows "\<exists>n. CheckShape gdim uev_idx arrays names = Inl (ShapeMismatch n)"
proof -
  from assms(2,4) have "(uev_idx ! i, arrays ! i) \<in> set (zip uev_idx arrays)"
    by (auto simp: set_zip)
  moreover from assms(2,3,4) have "gdim_at gdim (uev_idx ! i) = Some (gdim ! nat (uev_idx ! i))"
    by (simp add: gdim_at_def)
  ultimately have "CheckShape gdim uev_idx arrays names \<noteq> Inr ()"
    using assms(5,6) unfolding CheckShape_Inr_iff [OF assms(1,2)] by fastforce
  then obtain e where e: "CheckShape gdim uev_idx arrays names = Inl e"
    using not_Inr_unit by blast
  from CheckShape_Inl [OF e assms(3)] e show ?thesis by auto
qed

text \<open>
  Claim C2. The shape check fails with the shape error as soon as one non-null tensor has
  fewer than two dimensions or a leading dimension that differs from the entry of
  \<^verbatim>\<open>gdim\<close> its role index selects. The entry points call it with these roles: in SpMM
  the source-vertex count for U, the edge count for E and the destination-vertex count for
  out, ArgU and ArgE; in SDDMM the count selected by the target (0 source vertices,
  1 edges, 2 destination vertices) for lhs and rhs and the edge count for out. So a
  non-null operand of an entry point with fewer than two dimensions, or with a leading
  dimension other than the count of its role, makes the call fail with the store
  unchanged, and the error is the shape error whenever the shape check is reached, that
  is, whenever the checks that run before it (context, contiguity, single edge type)
  have passed.
\<close>

theorem shape_validation_by_role:
  "(length arrays \<le> length names \<and> length arrays \<le> length uev_idx \<and>
    (\<forall>u\<in>set uev_idx. 0 \<le> u \<and> nat u < length gdim) \<and>
    i < length arrays \<and> \<not> IsNullArray (arrays ! i) \<and>
    (ndim (arrays ! i) < 2 \<or> hd (shape (arrays ! i)) \<noteq> gdim ! nat (uev_idx ! i)) \<longrightarrow>
    (\<exists>n. CheckShape gdim uev_idx arrays names = Inl (ShapeMismatch n))) \<and>
   ((t, cnt) \<in> set [(U, src_count graph), (E, edge_count graph), (V, dst_count graph),
                     (ArgU, dst_count graph), (ArgE, dst_count graph)] \<and>
    \<not> IsNullArray t \<and> (ndim t < 2 \<or> hd (shape t) \<noteq> cnt) \<longrightarrow>
    (\<exists>e. CAPI_DGLKernelSpMM X graph op reduce_op U E V ArgU ArgE s = (Inl e, s)) \<and>
    ((\<forall>a\<in>set [U, E, V, ArgU, ArgE]. ctx_ok (Context graph) a \<and> contiguous_ok a) \<and>
     NumEdgeTypes graph = 1 \<longrightarrow>
     (\<exists>n. CAPI_DGLKernelSpMM X graph op reduce_op U E V ArgU ArgE s =
            (Inl (ShapeMismatch n), s)))) \<and>
   (lhs_target \<in> {0, 1, 2} \<and> rhs_target \<in> {0, 1, 2} \<and>
    (t, cnt) \<in> set [(lhs, target_count graph lhs_target),
                     (rhs, target_count graph rhs_target), (out, edge_count graph)] \<and>
    \<not> IsNullArray t \<and> (ndim t < 2 \<or> hd (shape t) \<noteq> cnt) \<longrightarrow>
    (\<exists>e. CAPI_DGLKernelSDDMM X graph op lhs rhs out lhs_target rhs_target s =
           (Inl e, s)) \<and>
    ((\<forall>a\<in>set [lhs, rhs, out]. ctx_ok (Context graph) a \<and> contiguous_ok a) \<and>
     NumEdgeTypes graph = 1 \<longrightarrow>
     (\<exists>n. CAPI_DGLKernelSDDMM X graph op lhs rhs out lhs_target rhs_target s =
            (Inl (ShapeMismatch n), s))))"
proof (intro conjI impI; elim conjE)
  assume "length arrays \<le> length names" and "length arrays \<le> length uev_idx"
    and "\<forall>u\<in>set uev_idx. 0 \<le> u \<and> nat u < length gdim"
    and "i < length arrays" and "\<not> IsNullArray (arrays ! i)"
    and "ndim (arrays ! i) < 2 \<or> hd (shape (arrays ! i)) \<noteq> gdim ! nat (uev_idx ! i)"
  then show "\<exists>n. CheckShape gdim uev_idx arrays names = Inl (ShapeMismatch n)"
    by (rule CheckShape_rejects)
next
  assume m: "(t, cnt) \<in> set [(U, src_count graph), (E, edge_count graph),
      (V, dst_count graph), (ArgU, dst_count graph), (ArgE, dst_count graph)]"
    and v: "\<not> IsNullArray t" "ndim t < 2 \<or> hd (shape t) \<noteq> cnt"
  from v have "\<not> shape_ok cnt t" by (rule shape_ok_violation)
  with m have bad: "\<not> (shape_ok (src_count graph) U \<and> shape_ok (edge_count graph) E \<and>
      shape_ok (dst_count graph) V \<and> shape_ok (dst_count graph) ArgU \<and>
      shape_ok (dst_count graph) ArgE)"
    by auto
  note o = CAPI_DGLKernelSpMM_outcome [of U E V ArgU ArgE graph X op reduce_op s]
  from bad o show "\<exists>e. CAPI_DGLKernelSpMM X graph op reduce_op U E V ArgU ArgE s = (Inl e, s)"
    by (cases "NumEdgeTypes graph = 1") metis+
  assume "\<forall>a\<in>set [U, E, V, ArgU, ArgE]. ctx_ok (Context graph) a \<and> contiguous_ok a"
    and "NumEdgeTypes graph = 1"
  with bad o show "\<exists>n. CAPI_DGLKernelSpMM X graph op reduce_op U E V ArgU ArgE s =
      (Inl (ShapeMismatch n), s)"
    by metis
next
  assume r: "lhs_target \<in> {0, 1, 2}" "rhs_target \<in> {0, 1, 2}"
    and m: "(t, cnt) \<in> set [(lhs, target_count graph lhs_target),
      (rhs, target_count graph rhs_target), (out, edge_count graph)]"
    and v: "\<not> IsNullArray t" "ndim t < 2 \<or> hd (shape t) \<noteq> cnt"
  from v have "\<not> shape_ok cnt t" by (rule shape_ok_violation)
  with m have bad: "\<not> (shape_ok (target_count graph lhs_target) lhs \<and>
      shape_ok (target_count graph rhs_target) rhs \<and> shape_ok (edge_count graph) out)"
    by auto
  note o = CAPI_DGLKernelSDDMM_outcome [OF r, of lhs rhs out graph X op s]
  from bad o show "\<exists>e. CAPI_DGLKernelSDDMM X graph op lhs rhs out lhs_target rhs_target s =
      (Inl e, s)"
    by (cases "NumEdgeTypes graph = 1") metis+
  assume "\<forall>a\<in>set [lhs, rhs, out]. ctx_ok (Context graph) a \<and> contiguous_ok a"
    and "NumEdgeTypes graph = 1"
  with bad o show "\<exists>n. CAPI_DGLKernelSDDMM X graph op lhs rhs out lhs_target rhs_target s =
      (Inl (ShapeMismatch n), s)"
    by metis
qed

theorem shape_validation_by_role_witness:
  "(\<exists>n. CheckShape [3, 4, 2] [0, 1, 2]
          [tensor host float32 [3, 5], tensor host float32 [4, 5], tensor host float32 [3, 5]]
          [''U_data'', ''E_data'', ''out''] = Inl (ShapeMismatch n)) \<and>
   (\<exists>n. CAPI_DGLKernelSpMM logging (graph_of kCSC NullArray) ''add'' ''sum''
          (tensor host float32 [3, 5]) (tensor host float32 [4, 5])
          (tensor host float32 [3, 5]) NullArray NullArray [] =
          (Inl (ShapeMismatch n), [])) \<and>
   (\<exists>n. CAPI_DGLKernelSDDMM logging (graph_of kCOO NullArray) ''dot''
          (tensor host float32 [3, 5]) (tensor host float32 [2])
          (tensor host float32 [4, 1]) 0 2 [] = (Inl (ShapeMismatch n), []))"
proof (intro conjI)
  let ?arrays = "[tensor host float32 [3, 5], tensor host float32 [4, 5],
                  tensor host float32 [3, 5]]"
  have a: "length ?arrays \<le> length [''U_data'', ''E_data'', ''out''] \<and>
      length ?arrays \<le> length [0, 1, 2 :: int] \<and>
      (\<forall>u\<in>set [0, 1, 2 :: int]. 0 \<le> u \<and> nat u < length [3, 4, 2 :: 64 word]) \<and>
      (2 :: nat) < length ?arrays \<and> \<not> IsNullArray (?arrays ! 2) \<and>
      (ndim (?arrays ! 2) < 2 \<or>
       hd (shape (?arrays ! 2)) \<noteq> [3, 4, 2 :: 64 word] ! nat ([0, 1, 2 :: int] ! 2))"
    by (simp add: IsNullArray_def tensor_def ndim_def)
  show "\<exists>n. CheckShape [3, 4, 2] [0, 1, 2] ?arrays [''U_data'', ''E_data'', ''out''] =
          Inl (ShapeMismatch n)"
    using a
    by (rule shape_validation_by_role [THEN conjunct1, THEN mp])
next
  have b: "(tensor host float32 [3, 5], 2) \<in>
        set [(tensor host float32 [3, 5], src_count (graph_of kCSC NullArray)),
             (tensor host float32 [4, 5], edge_count (graph_of kCSC NullArray)),
             (tensor host float32 [3, 5], dst_count (graph_of kCSC NullArray)),
             (NullArray, dst_count (graph_of kCSC NullArray)),
             (NullArray, dst_count (graph_of kCSC NullArray))] \<and>
      \<not> IsNullArray (tensor host float32 [3, 5]) \<and>
      (ndim (tensor host float32 [3, 5]) < 2 \<or> hd (shape (tensor host float32 [3, 5])) \<noteq> 2)"
    by (simp add: IsNullArray_def tensor_def graph_of_def ndim_def dst_count_def)
  have b': "(\<forall>a\<in>set [tensor host float32 [3, 5], tensor host float32 [4, 5],
                  tensor host float32 [3, 5], NullArray, NullArray].
          ctx_ok (Context (graph_of kCSC NullArray)) a \<and> contiguous_ok a) \<and>
      NumEdgeTypes (graph_of kCSC NullArray) = 1"
    by (simp add: ctx_ok_def contiguous_ok_def IsNullArray_def NullArray_def tensor_def
          graph_of_def)
  show "\<exists>n. CAPI_DGLKernelSpMM logging (graph_of kCSC NullArray) ''add'' ''sum''
          (tensor host float32 [3, 5]) (tensor host float32 [4, 5])
          (tensor host float32 [3, 5]) NullArray NullArray [] =
          (Inl (ShapeMismatch n), [])"
    using b'
    by (rule shape_validation_by_role
          [THEN conjunct2, THEN conjunct1, THEN mp, OF b, THEN conjunct2, THEN mp])
next
  have c: "(0 :: int) \<in> {0, 1, 2} \<and> (2 :: int) \<in> {0, 1, 2} \<and>
      (tensor host float32 [2], 2) \<in>
        set [(tensor host float32 [3, 5], target_count (graph_of kCOO NullArray) 0),
             (tensor host float32 [2], target_count (graph_of kCOO NullArray) 2),
             (tensor host float32 [4, 1], edge_count (graph_of kCOO NullArray))] \<and>
      \<not> IsNullArray (tensor host float32 [2]) \<and>
      (ndim (tensor host float32 [2]) < 2 \<or> hd (shape (tensor host float32 [2])) \<noteq> 2)"
    by (simp add: IsNullArray_def tensor_def graph_of_def ndim_def dst_count_def
          target_count_def)
  have c': "(\<forall>a\<in>set [tensor host float32 [3, 5], tensor host float32 [2],
                  tensor host float32 [4, 1]].
          ctx_ok (Context (graph_of kCOO NullArray)) a \<and> contiguous_ok a) \<and>
      NumEdgeTypes (graph_of kCOO NullArray) = 1"
    by (simp add: ctx_ok_def contiguous_ok_def IsNullArray_def tensor_def graph_of_def)
  show "\<exists>n. CAPI_DGLKernelSDDMM logging (graph_of kCOO NullArray) ''dot''
          (tensor host float32 [3, 5]) (tensor host float32 [2])
          (tensor host float32 [4, 1]) 0 2 [] = (Inl (ShapeMismatch n), [])"
    using c'
    by (rule shape_validation_by_role
          [THEN conjunct2, THEN conjunct2, THEN mp, OF c, THEN conjunct2, THEN mp])
qed

subsection \<open>The formats each engine accepts\<close>

text \<open>
  Claim C3. SpMM reaches a kernel only when the selected format is compressed-by-destination
  or coordinate-list, and SDDMM only when it is compressed-by-source or coordinate-list.
  With any other selected format the dispatch function, and with it the entry point,
  fails and leaves the store unchanged; the error is the format error as soon as the
  broadcast resolver and the three switches have succeeded.
\<close>

theorem format_gate:
  "(fst (SpMM X op reduce graph ufeat efeat out out_aux s) = Inr k \<longrightarrow>
      SelectFormat graph 0 csc_code \<in> {kCSC, kCOO}) \<and>
   (SelectFormat graph 0 csc_code \<notin> {kCSC, kCOO} \<longrightarrow>
      (\<exists>e. SpMM X op reduce graph ufeat efeat out out_aux s = (Inl e, s)) \<and>
      (\<exists>e. CAPI_DGLKernelSpMM X graph op reduce U E V ArgU ArgE s = (Inl e, s)) \<and>
      (CalcBcastOff X op ufeat efeat = Inr bcast \<and>
       ATEN_XPU_SWITCH_CUDA X (device_type (Context graph)) = Some XPU \<and>
       ATEN_ID_TYPE_SWITCH X (DataType graph) = Some IdType \<and>
       ATEN_FLOAT_BITS_SWITCH X (dtype out) = Some fbits \<longrightarrow>
       SpMM X op reduce graph ufeat efeat out out_aux s = (Inl UnsupportedFormat, s))) \<and>
   (fst (SDDMM X op graph lhs rhs out lhs_target rhs_target s) = Inr k \<longrightarrow>
      SelectFormat graph 0 coo_code \<in> {kCSR, kCOO}) \<and>
   (SelectFormat graph 0 coo_code \<notin> {kCSR, kCOO} \<longrightarrow>
      (\<exists>e. SDDMM X op graph lhs rhs out lhs_target rhs_target s = (Inl e, s)) \<and>
      (lhs_target \<in> {0, 1, 2} \<and> rhs_target \<in> {0, 1, 2} \<longrightarrow>
       (\<exists>e. CAPI_DGLKernelSDDMM X graph op lhs rhs out lhs_target rhs_target s =
              (Inl e, s))) \<and>
      (CalcBcastOff X op lhs rhs = Inr bcast \<and>
       ATEN_XPU_SWITCH_CUDA X (device_type (Context graph)) = Some XPU \<and>
       ATEN_ID_TYPE_SWITCH X (DataType graph) = Some IdType \<and>
       ATEN_FLOAT_BITS_SWITCH X (dtype out) = Some fbits \<longrightarrow>
       SDDMM X op graph lhs rhs out lhs_target rhs_target s = (Inl UnsupportedFormat, s)))"
proof -
  have a: "fst (SpMM X op reduce graph ufeat efeat out out_aux s) = Inr k \<longrightarrow>
      SelectFormat graph 0 csc_code \<in> {kCSC, kCOO}"
    by (simp add: SpMM_def launch_def Let_def split: sum.splits option.splits)
  have b: "\<exists>e. SpMM X op reduce graph u e' out out_aux s = (Inl e, s)"
    if "SelectFormat graph 0 csc_code \<notin> {kCSC, kCOO}" for u e' out out_aux
    using that by (simp add: SpMM_def launch_def Let_def split: sum.splits option.splits)
  have c: "\<exists>e. CAPI_DGLKernelSpMM X graph op reduce U E V ArgU ArgE s = (Inl e, s)"
    if "SelectFormat graph 0 csc_code \<notin> {kCSC, kCOO}"
    using CAPI_DGLKernelSpMM_cases [of X graph op reduce U E V ArgU ArgE s]
          b [OF that, of U E V "[ArgU, ArgE]"]
    by metis
  have d: "SpMM X op reduce graph ufeat efeat out out_aux s = (Inl UnsupportedFormat, s)"
    if "SelectFormat graph 0 csc_code \<notin> {kCSC, kCOO}"
       "CalcBcastOff X op ufeat efeat = Inr bcast"
       "ATEN_XPU_SWITCH_CUDA X (device_type (Context graph)) = Some XPU"
       "ATEN_ID_TYPE_SWITCH X (DataType graph) = Some IdType"
       "ATEN_FLOAT_BITS_SWITCH X (dtype out) = Some fbits"
    using that by (simp add: SpMM_def Let_def)
  have a': "fst (SDDMM X op graph lhs rhs out lhs_target rhs_target s) = Inr k \<longrightarrow>
      SelectFormat graph 0 coo_code \<in> {kCSR, kCOO}"
    by (simp add: SDDMM_def launch_def Let_def split: sum.splits option.splits)
  have b': "\<exists>e. SDDMM X op graph lhs rhs out lhs_target rhs_target s = (Inl e, s)"
    if "SelectFormat graph 0 coo_code \<notin> {kCSR, kCOO}"
    using that by (simp add: SDDMM_def launch_def Let_def split: sum.splits option.splits)
  have c': "\<exists>e. CAPI_DGLKernelSDDMM X graph op lhs rhs out lhs_target rhs_target s =
              (Inl e, s)"
    if "SelectFormat graph 0 coo_code \<notin> {kCSR, kCOO}"
       "lhs_target \<in> {0, 1, 2}" "rhs_target \<in> {0, 1, 2}"
    using CAPI_DGLKernelSDDMM_cases [OF that(2,3), of X graph op lhs rhs out s]
          b' [OF that(1)]
    by metis
  have d': "SDDMM X op graph lhs rhs out lhs_target rhs_target s = (Inl UnsupportedFormat, s)"
    if "SelectFormat graph 0 coo_code \<notin> {kCSR, kCOO}"
       "CalcBcastOff X op lhs rhs = Inr bcast"
       "ATEN_XPU_SWITCH_CUDA X (device_type (Context graph)) = Some XPU"
       "ATEN_ID_TYPE_SWITCH X (DataType graph) = Some IdType"
       "ATEN_FLOAT_BITS_SWITCH X (dtype out) = Some fbits"
    using that by (simp add: SDDMM_def Let_def)
  from a b c d a' b' c' d' show ?thesis by blast
qed

theorem format_gate_witness:
  "fst (SpMM logging ''add'' ''sum'' (graph_of kCOO NullArray) (tensor host float32 [3, 5])
          (tensor host float32 [4, 5]) (tensor host float32 [2, 5]) [NullArray, NullArray] []) =
     Inr (SpMMCoo Host Int64 Float32 ''add'' ''sum'' ()
            (GetCOOMatrix (graph_of kCOO NullArray) 0) (tensor host float32 [3, 5])
            (tensor host float32 [4, 5]) (tensor host float32 [2, 5]) [NullArray, NullArray]) \<and>
   SelectFormat (graph_of kCOO NullArray) 0 csc_code \<in> {kCSC, kCOO} \<and>
   SelectFormat (graph_of kCSR NullArray) 0 csc_code \<notin> {kCSC, kCOO} \<and>
   SpMM logging ''add'' ''sum'' (graph_of kCSR NullArray) (tensor host float32 [3, 5])
          (tensor host float32 [4, 5]) (tensor host float32 [2, 5]) [NullArray, NullArray] [] =
     (Inl UnsupportedFormat, []) \<and>
   fst (SDDMM logging ''dot'' (graph_of kCSR NullArray) (tensor host float32 [3, 5])
          (tensor host float32 [2, 5]) (tensor host float32 [4, 1]) 0 2 []) =
     Inr (SDDMMCsr Host Int64 Float32 ''dot'' ()
            (GetCSRMatrix (graph_of kCSR NullArray) 0) (tensor host float32 [3, 5])
            (tensor host float32 [2, 5]) (tensor host float32 [4, 1]) 0 2) \<and>
   SelectFormat (graph_of kCSR NullArray) 0 coo_code \<in> {kCSR, kCOO} \<and>
   SelectFormat (graph_of kCSC NullArray) 0 coo_code \<notin> {kCSR, kCOO} \<and>
   SDDMM logging ''dot'' (graph_of kCSC NullArray) (tensor host float32 [3, 5])
          (tensor host float32 [2, 5]) (tensor host float32 [4, 1]) 0 2 [] =
     (Inl UnsupportedFormat, [])"
  using format_gate
    [where X = logging and op = "''add''" and reduce = "''sum''"
       and graph = "graph_of kCOO NullArray" and ufeat = "tensor host float32 [3, 5]"
       and efeat = "tensor host float32 [4, 5]" and out = "tensor host float32 [2, 5]"
       and out_aux = "[NullArray, NullArray]" and s = "[]"
       and k = "SpMMCoo Host Int64 Float32 ''add'' ''sum'' ()
            (GetCOOMatrix (graph_of kCOO NullArray) 0) (tensor host float32 [3, 5])
            (tensor host float32 [4, 5]) (tensor host float32 [2, 5]) [NullArray, NullArray]"]
    format_gate
    [where X = logging and op = "''add''" and reduce = "''sum''"
       and graph = "graph_of kCSR NullArray" and ufeat = "tensor host float32 [3, 5]"
       and efeat = "tensor host float32 [4, 5]" and out = "tensor host float32 [2, 5]"
       and out_aux = "[NullArray, NullArray]" and s = "[]" and bcast = "()"
       and XPU = Host and IdType = Int64 and fbits = Float32]
    format_gate
    [where X = logging and op = "''dot''" and graph = "graph_of kCSR NullArray"
       and lhs = "tensor host float32 [3, 5]" and rhs = "tensor host float32 [2, 5]"
       and out = "tensor host float32 [4, 1]" and lhs_target = 0 and rhs_target = 2
       and s = "[]"
       and k = "SDDMMCsr Host Int64 Float32 ''dot'' ()
            (GetCSRMatrix (graph_of kCSR NullArray) 0) (tensor host float32 [3, 5])
            (tensor host float32 [2, 5]) (tensor host float32 [4, 1]) 0 2"]
    format_gate
    [where X = logging and op = "''dot''" and graph = "graph_of kCSC NullArray"
       and lhs = "tensor host float32 [3, 5]" and rhs = "tensor host float32 [2, 5]"
       and out = "tensor host float32 [4, 1]" and lhs_target = 0 and rhs_target = 2
       and s = "[]" and bcast = "()" and XPU = Host and IdType = Int64 and fbits = Float32]
  by (simp add: SpMM_def SDDMM_def launch_def logging_def graph_of_def tensor_def
        xpu_switch_def id_type_switch_def float_bits_switch_def host_def int64_def
        float32_def kDLCPU_def kDLGPU_def kDLInt_def kDLFloat_def kDLBfloat_def)

subsection \<open>The three axes of dispatch\<close>




subsection \<open>The reduce operator and the auxiliary tensors\<close>

lemma SpMM_error_any_reduce:
  "fst (SpMM X op reduce graph ufeat efeat out out_aux s) = Inl e \<longleftrightarrow>
   fst (SpMM X op reduce' graph ufeat efeat out out_aux s) = Inl e"
  by (simp add: SpMM_def launch_def Let_def split: sum.splits option.splits)

lemma SpMM_kernel_arguments:
  "fst (SpMM X op reduce graph ufeat efeat out out_aux s) = Inr k \<Longrightarrow>
   \<exists>x i f b. k = SpMMCsr x i f op reduce b (GetCSCMatrix graph 0) ufeat efeat out out_aux \<or>
             k = SpMMCoo x i f op reduce b (GetCOOMatrix graph 0) ufeat efeat out out_aux"
  by (auto simp: SpMM_def launch_def Let_def split: sum.splits option.splits if_splits)

lemma SpMM_null_aux_accepted:
  "IsNullArray ArgU \<and> IsNullArray ArgE \<and>
   (\<forall>t\<in>set [U, E, V]. ctx_ok (Context graph) t \<and> contiguous_ok t) \<and>
   NumEdgeTypes graph = 1 \<and> shape_ok (src_count graph) U \<and>
   shape_ok (edge_count graph) E \<and> shape_ok (dst_count graph) V \<longrightarrow>
   CAPI_DGLKernelSpMM X graph op reduce U E V ArgU ArgE s =
   SpMM X op reduce graph U E V [ArgU, ArgE] s"
proof
  assume a: "IsNullArray ArgU \<and> IsNullArray ArgE \<and>
   (\<forall>t\<in>set [U, E, V]. ctx_ok (Context graph) t \<and> contiguous_ok t) \<and>
   NumEdgeTypes graph = 1 \<and> shape_ok (src_count graph) U \<and>
   shape_ok (edge_count graph) E \<and> shape_ok (dst_count graph) V"
  then have n: "ctx_ok (Context graph) ArgU" "ctx_ok (Context graph) ArgE"
      "contiguous_ok ArgU" "contiguous_ok ArgE"
      "shape_ok (dst_count graph) ArgU" "shape_ok (dst_count graph) ArgE"
    by (simp_all add: ctx_ok_def contiguous_ok_def shape_ok_def)
  from a n have "\<forall>t\<in>set [U, E, V, ArgU, ArgE]. ctx_ok (Context graph) t"
    and "\<forall>t\<in>set [U, E, V, ArgU, ArgE]. contiguous_ok t"
    by simp_all
  with a n CAPI_DGLKernelSpMM_outcome [of U E V ArgU ArgE graph X op reduce s]
  show "CAPI_DGLKernelSpMM X graph op reduce U E V ArgU ArgE s =
   SpMM X op reduce graph U E V [ArgU, ArgE] s"
    by blast
qed

text \<open>
  Claim C5, as stated, fails: nothing in the entry point or in the dispatch function
  compares the reduce operator with the auxiliary tensors. A call with reduce operator
  max and both auxiliary tensors null passes every check and reaches the kernel.
\<close>

theorem arg_requirement_counterexample:
  "IsNullArray NullArray \<and>
   fst (CAPI_DGLKernelSpMM logging (graph_of kCSC NullArray) ''copy_lhs'' ''max''
          (tensor host float32 [3, 5]) NullArray (tensor host float32 [2, 5])
          NullArray NullArray []) =
     Inr (SpMMCsr Host Int64 Float32 ''copy_lhs'' ''max'' ()
            (GetCSCMatrix (graph_of kCSC NullArray) 0) (tensor host float32 [3, 5])
            NullArray (tensor host float32 [2, 5]) [NullArray, NullArray])"
  by (simp add: CAPI_DGLKernelSpMM_def SpMM_def launch_def logging_def graph_of_def
        tensor_def NullArray_def IsNullArray_def ndim_def gdim_at_def
        xpu_switch_def id_type_switch_def float_bits_switch_def host_def
        int64_def float32_def kDLCPU_def kDLGPU_def kDLInt_def kDLFloat_def kDLBfloat_def)

text \<open>
  Claim C5, amended. The validation and dispatch layer does not tie the auxiliary tensors
  to the reduce operator. Whether an SpMM call is rejected before a kernel runs, and with
  which error, is the same for every reduce operator; a call that is accepted hands the
  reduce operator and the two auxiliary tensors to the kernel as they came in; and with
  both auxiliary tensors null the entry point hands over to dispatch as soon as U, E and
  out pass the checks, whatever the reduce operator.
\<close>

theorem reduce_not_validated:
  "(fst (CAPI_DGLKernelSpMM X graph op reduce U E V ArgU ArgE s) = Inl e \<longleftrightarrow>
    fst (CAPI_DGLKernelSpMM X graph op reduce' U E V ArgU ArgE s) = Inl e) \<and>
   (fst (CAPI_DGLKernelSpMM X graph op reduce U E V ArgU ArgE s) = Inr k \<longrightarrow>
    (\<exists>x i f b.
        k = SpMMCsr x i f op reduce b (GetCSCMatrix graph 0) U E V [ArgU, ArgE] \<or>
        k = SpMMCoo x i f op reduce b (GetCOOMatrix graph 0) U E V [ArgU, ArgE])) \<and>
   (IsNullArray ArgU \<and> IsNullArray ArgE \<and>
    (\<forall>t\<in>set [U, E, V]. ctx_ok (Context graph) t \<and> contiguous_ok t) \<and>
    NumEdgeTypes graph = 1 \<and> shape_ok (src_count graph) U \<and>
    shape_ok (edge_count graph) E \<and> shape_ok (dst_count graph) V \<longrightarrow>
    CAPI_DGLKernelSpMM X graph op reduce U E V ArgU ArgE s =
    SpMM X op reduce graph U E V [ArgU, ArgE] s)"
proof (intro conjI)
  show "fst (CAPI_DGLKernelSpMM X graph op reduce U E V ArgU ArgE s) = Inl e \<longleftrightarrow>
    fst (CAPI_DGLKernelSpMM X graph op reduce' U E V ArgU ArgE s) = Inl e"
    unfolding CAPI_DGLKernelSpMM_def Let_def
    using SpMM_error_any_reduce [of X op reduce graph U E V "[ArgU, ArgE]" s e reduce']
    by (simp del: CheckCtx.simps CheckContiguous.simps CheckShape.simps split: sum.splits)
  show "fst (CAPI_DGLKernelSpMM X graph op reduce U E V ArgU ArgE s) = Inr k \<longrightarrow>
    (\<exists>x i f b.
        k = SpMMCsr x i f op reduce b (GetCSCMatrix graph 0) U E V [ArgU, ArgE] \<or>
        k = SpMMCoo x i f op reduce b (GetCOOMatrix graph 0) U E V [ArgU, ArgE])"
    using CAPI_DGLKernelSpMM_cases [of X graph op reduce U E V ArgU ArgE s]
          SpMM_kernel_arguments [of X op reduce graph U E V "[ArgU, ArgE]" s k]
    by auto
  show "IsNullArray ArgU \<and> IsNullArray ArgE \<and>
    (\<forall>t\<in>set [U, E, V]. ctx_ok (Context graph) t \<and> contiguous_ok t) \<and>
    NumEdgeTypes graph = 1 \<and> shape_ok (src_count graph) U \<and>
    shape_ok (edge_count graph) E \<and> shape_ok (dst_count graph) V \<longrightarrow>
    CAPI_DGLKernelSpMM X graph op reduce U E V ArgU ArgE s =
    SpMM X op reduce graph U E V [ArgU, ArgE] s"
    by (rule SpMM_null_aux_accepted)
qed

theorem reduce_not_validated_witness:
  "fst (CAPI_DGLKernelSpMM logging (graph_of kCSC NullArray) ''copy_lhs'' ''max''
          (tensor host float32 [3, 5]) NullArray (tensor host float32 [7, 5])
          NullArray NullArray []) = Inl (ShapeMismatch ''out'') \<and>
   fst (CAPI_DGLKernelSpMM logging (graph_of kCSC NullArray) ''copy_lhs'' ''sum''
          (tensor host float32 [3, 5]) NullArray (tensor host float32 [7, 5])
          NullArray NullArray []) = Inl (ShapeMismatch ''out'') \<and>
   fst (CAPI_DGLKernelSpMM logging (graph_of kCSC NullArray) ''copy_lhs'' ''max''
          (tensor host float32 [3, 5]) NullArray (tensor host float32 [2, 5])
          NullArray NullArray []) =
     Inr (SpMMCsr Host Int64 Float32 ''copy_lhs'' ''max'' ()
            (GetCSCMatrix (graph_of kCSC NullArray) 0) (tensor host float32 [3, 5])
            NullArray (tensor host float32 [2, 5]) [NullArray, NullArray]) \<and>
   (\<exists>x i f b.
      SpMMCsr Host Int64 Float32 ''copy_lhs'' ''max'' ()
        (GetCSCMatrix (graph_of kCSC NullArray) 0) (tensor host float32 [3, 5])
        NullArray (tensor host float32 [2, 5]) [NullArray, NullArray] =
      SpMMCsr x i f ''copy_lhs'' ''max'' b (GetCSCMatrix (graph_of kCSC NullArray) 0)
        (tensor host float32 [3, 5]) NullArray (tensor host float32 [2, 5])
        [NullArray, NullArray] \<or>
      SpMMCsr Host Int64 Float32 ''copy_lhs'' ''max'' ()
        (GetCSCMatrix (graph_of kCSC NullArray) 0) (tensor host float32 [3, 5])
        NullArray (tensor host float32 [2, 5]) [NullArray, NullArray] =
      SpMMCoo x i f ''copy_lhs'' ''max'' b (GetCOOMatrix (graph_of kCSC NullArray) 0)
        (tensor host float32 [3, 5]) NullArray (tensor host float32 [2, 5])
        [NullArray, NullArray]) \<and>
   CAPI_DGLKernelSpMM logging (graph_of kCSC NullArray) ''copy_lhs'' ''max''
     (tensor host float32 [3, 5]) NullArray (tensor host float32 [2, 5])
     NullArray NullArray [] =
   SpMM logging ''copy_lhs'' ''max'' (graph_of kCSC NullArray)
     (tensor host float32 [3, 5]) NullArray (tensor host float32 [2, 5])
     [NullArray, NullArray] []"
proof -
  have nul: "IsNullArray NullArray \<and> IsNullArray NullArray \<and>
      (\<forall>t\<in>set [tensor host float32 [3, 5], NullArray, tensor host float32 [2, 5]].
          ctx_ok (Context (graph_of kCSC NullArray)) t \<and> contiguous_ok t) \<and>
      NumEdgeTypes (graph_of kCSC NullArray) = 1 \<and>
      shape_ok (src_count (graph_of kCSC NullArray)) (tensor host float32 [3, 5]) \<and>
      shape_ok (edge_count (graph_of kCSC NullArray)) NullArray \<and>
      shape_ok (dst_count (graph_of kCSC NullArray)) (tensor host float32 [2, 5])"
    by (simp add: ctx_ok_def contiguous_ok_def shape_ok_def IsNullArray_def NullArray_def
          tensor_def graph_of_def ndim_def src_count_def dst_count_def)
  have ok: "fst (CAPI_DGLKernelSpMM logging (graph_of kCSC NullArray) ''copy_lhs'' ''max''
          (tensor host float32 [3, 5]) NullArray (tensor host float32 [2, 5])
          NullArray NullArray []) =
     Inr (SpMMCsr Host Int64 Float32 ''copy_lhs'' ''max'' ()
            (GetCSCMatrix (graph_of kCSC NullArray) 0) (tensor host float32 [3, 5])
            NullArray (tensor host float32 [2, 5]) [NullArray, NullArray])"
    by (simp add: CAPI_DGLKernelSpMM_def SpMM_def launch_def logging_def graph_of_def
        tensor_def NullArray_def IsNullArray_def ndim_def gdim_at_def
        xpu_switch_def id_type_switch_def float_bits_switch_def host_def
        int64_def float32_def kDLCPU_def kDLGPU_def kDLInt_def kDLFloat_def kDLBfloat_def)
  have bad: "fst (CAPI_DGLKernelSpMM logging (graph_of kCSC NullArray) ''copy_lhs'' ''max''
          (tensor host float32 [3, 5]) NullArray (tensor host float32 [7, 5])
          NullArray NullArray []) = Inl (ShapeMismatch ''out'')"
    by (simp add: CAPI_DGLKernelSpMM_def graph_of_def
        tensor_def NullArray_def IsNullArray_def ndim_def gdim_at_def host_def)
  from ok bad nul
    reduce_not_validated
    [where X = logging and graph = "graph_of kCSC NullArray" and op = "''copy_lhs''"
       and reduce = "''max''" and reduce' = "''sum''"
       and U = "tensor host float32 [3, 5]" and E = NullArray
       and V = "tensor host float32 [7, 5]" and ArgU = NullArray and ArgE = NullArray
       and s = "[]" and e = "ShapeMismatch ''out''"]
    reduce_not_validated
    [where X = logging and graph = "graph_of kCSC NullArray" and op = "''copy_lhs''"
       and reduce = "''max''"
       and U = "tensor host float32 [3, 5]" and E = NullArray
       and V = "tensor host float32 [2, 5]" and ArgU = NullArray and ArgE = NullArray
       and s = "[]"
       and k = "SpMMCsr Host Int64 Float32 ''copy_lhs'' ''max'' ()
            (GetCSCMatrix (graph_of kCSC NullArray) 0) (tensor host float32 [3, 5])
            NullArray (tensor host float32 [2, 5]) [NullArray, NullArray]"]
  show ?thesis by blast
qed

subsection \<open>Contiguity\<close>

lemma not_contiguous_ok:
  "\<not> IsNullArray t \<Longrightarrow> \<not> IsContiguous t \<Longrightarrow> \<not> contiguous_ok t"
  by (simp add: contiguous_ok_def)

text \<open>
  The operands an entry point hands to \<^verbatim>\<open>CheckContiguous\<close> obey the contiguity law: one
  of them non-null and not contiguous makes the call fail with the store unchanged.
\<close>

lemma contiguity_law_checked_operands:
  assumes "\<not> IsNullArray t" and "\<not> IsContiguous t"
  shows "t \<in> set [U, E, V, ArgU, ArgE] \<Longrightarrow>
           \<exists>e. CAPI_DGLKernelSpMM X graph op reduce_op U E V ArgU ArgE s = (Inl e, s)"
    and "t \<in> set [lhs, rhs, out] \<Longrightarrow> lhs_target \<in> {0, 1, 2} \<Longrightarrow> rhs_target \<in> {0, 1, 2} \<Longrightarrow>
           \<exists>e. CAPI_DGLKernelSDDMM X graph op lhs rhs out lhs_target rhs_target s = (Inl e, s)"
    and "t \<in> set [feat, offsets, rout] \<Longrightarrow>
           \<exists>e. CAPI_DGLKernelSegmentReduce X op feat offsets rout arg s = (Inl e, s)"
    and "t \<in> set [bfeat, barg, bout] \<Longrightarrow>
           \<exists>e. CAPI_DGLKernelBwdSegmentCmp X bfeat barg bout s = (Inl e, s)"
proof -
  note bad = not_contiguous_ok [OF assms]
  show "\<exists>e. CAPI_DGLKernelSpMM X graph op reduce_op U E V ArgU ArgE s = (Inl e, s)"
    if "t \<in> set [U, E, V, ArgU, ArgE]"
    using CAPI_DGLKernelSpMM_outcome [of U E V ArgU ArgE graph X op reduce_op s] bad that
    by metis
  show "\<exists>e. CAPI_DGLKernelSDDMM X graph op lhs rhs out lhs_target rhs_target s = (Inl e, s)"
    if "t \<in> set [lhs, rhs, out]" "lhs_target \<in> {0, 1, 2}" "rhs_target \<in> {0, 1, 2}"
    using CAPI_DGLKernelSDDMM_outcome [OF that(2,3), of lhs rhs out graph X op s] bad that(1)
    by metis
  show "\<exists>e. CAPI_DGLKernelSegmentReduce X op feat offsets rout arg s = (Inl e, s)"
    if "t \<in> set [feat, offsets, rout]"
    using CAPI_DGLKernelSegmentReduce_outcome [of feat offsets rout X op arg s] bad that
    by metis
  show "\<exists>e. CAPI_DGLKernelBwdSegmentCmp X bfeat barg bout s = (Inl e, s)"
    if "t \<in> set [bfeat, barg, bout]"
    using CAPI_DGLKernelBwdSegmentCmp_outcome [of bfeat barg bout X s] bad that
    by metis
qed

text \<open>
  Claim C6. A non-contiguous tensor passed as any non-null operand of any entry point is
  to fail with the contiguity error before an output buffer is written, the operand
  \<open>arg\<close> of segment reduce included. The entry point of segment reduce hands only
  \<open>feat\<close>, \<open>offsets\<close> and \<open>out\<close> to its checks: with a non-null, non-contiguous \<open>arg\<close> and
  otherwise valid operands the call reaches the kernel, which writes into the store.
  The entry point of backward segment compare, given the same tensor as its \<open>arg\<close>,
  rejects it with the contiguity error.
\<close>

theorem segment_reduce_arg_unchecked:
  "\<not> IsNullArray (strided (tensor host int64 [2, 5])) \<and>
   \<not> IsContiguous (strided (tensor host int64 [2, 5])) \<and>
   CAPI_DGLKernelSegmentReduce logging ''max'' (tensor host float32 [4, 5])
     (tensor host int64 [3]) (tensor host float32 [2, 5])
     (strided (tensor host int64 [2, 5])) [] =
     (Inr (SegmentReduce Host Int64 Float32 ''max'' (tensor host float32 [4, 5])
             (tensor host int64 [3]) (tensor host float32 [2, 5])
             (strided (tensor host int64 [2, 5]))),
      [SegmentReduce Host Int64 Float32 ''max'' (tensor host float32 [4, 5])
             (tensor host int64 [3]) (tensor host float32 [2, 5])
             (strided (tensor host int64 [2, 5]))]) \<and>
   CAPI_DGLKernelBwdSegmentCmp logging (tensor host float32 [2, 5])
     (strided (tensor host int64 [2, 5])) (tensor host float32 [4, 5]) [] =
     (Inl (NotContiguous ''arg''), [])"
  by (simp add: CAPI_DGLKernelSegmentReduce_def CAPI_DGLKernelBwdSegmentCmp_def
        SegmentReduceDispatch_def launch_def logging_def strided_def tensor_def
        IsNullArray_def xpu_switch_def id_type_switch_def float_bits_switch_def host_def
        int64_def float32_def kDLCPU_def kDLGPU_def kDLInt_def kDLFloat_def kDLBfloat_def)

subsection \<open>The edge mapping\<close>

text \<open>
  Claim C7, as stated, fails: when the selector returns a format other than
  compressed-by-destination, the query returns the null result whatever edge mapping
  that format carries. On a graph whose selector returns compressed-by-source, with a
  non-null mapping for that format, the query returns null although a mapping is needed.
\<close>

theorem edge_mapping_counterexample:
  "SelectFormat (graph_of kCSR (tensor host int64 [4])) 0 csc_code = kCSR \<and>
   spec_GetEdgeMapping (graph_of kCSR (tensor host int64 [4])) = tensor host int64 [4] \<and>
   \<not> IsNullArray (tensor host int64 [4]) \<and>
   GetEdgeMapping (graph_of kCSR (tensor host int64 [4])) = NullArray \<and>
   IsNullArray (GetEdgeMapping (graph_of kCSR (tensor host int64 [4])))"
  by (simp add: GetEdgeMapping_def spec_GetEdgeMapping_def graph_of_def tensor_def
        IsNullArray_def NullArray_def)

text \<open>
  Claim C7, amended. The query asks the selector for compressed-by-destination. When the
  selector returns that format, the query returns the edge mapping of the
  compressed-by-destination adjacency, which is what the specification asks for (null
  when that order and the canonical order coincide). When the selector returns any
  other format, the query returns the null result, whatever the mapping of that format.
  The registered entry point returns what the query returns.
\<close>

theorem edge_mapping_of_csc_only:
  "(SelectFormat graph 0 csc_code = kCSC \<longrightarrow>
      GetEdgeMapping graph = data (GetCSCMatrix graph 0) \<and>
      GetEdgeMapping graph = spec_GetEdgeMapping graph) \<and>
   (SelectFormat graph 0 csc_code \<noteq> kCSC \<longrightarrow>
      GetEdgeMapping graph = NullArray \<and> IsNullArray (GetEdgeMapping graph)) \<and>
   CAPI_DGLKernelGetEdgeMapping graph = GetEdgeMapping graph"
  by (simp add: GetEdgeMapping_def spec_GetEdgeMapping_def CAPI_DGLKernelGetEdgeMapping_def
        IsNullArray_def NullArray_def)

theorem edge_mapping_of_csc_only_witness:
  "SelectFormat (graph_of kCSC (tensor host int64 [4])) 0 csc_code = kCSC \<and>
   GetEdgeMapping (graph_of kCSC (tensor host int64 [4])) =
     spec_GetEdgeMapping (graph_of kCSC (tensor host int64 [4])) \<and>
   SelectFormat (graph_of kCOO (tensor host int64 [4])) 0 csc_code \<noteq> kCSC \<and>
   GetEdgeMapping (graph_of kCOO (tensor host int64 [4])) = NullArray"
proof -
  have a: "SelectFormat (graph_of kCSC (tensor host int64 [4])) 0 csc_code = kCSC"
    by (simp add: graph_of_def)
  have b: "SelectFormat (graph_of kCOO (tensor host int64 [4])) 0 csc_code \<noteq> kCSC"
    by (simp add: graph_of_def)
  from a b
    edge_mapping_of_csc_only [of "graph_of kCSC (tensor host int64 [4])"]
    edge_mapping_of_csc_only [of "graph_of kCOO (tensor host int64 [4])"]
  show ?thesis by blast
qed

subsection \<open>One edge type\<close>

lemma CAPI_DGLKernelSDDMM_edge_types:
  "NumEdgeTypes graph \<noteq> 1 \<Longrightarrow>
   (\<exists>e. CAPI_DGLKernelSDDMM X graph op lhs rhs out lhs_target rhs_target s = (Inl e, s)) \<and>
   ((\<forall>t\<in>set [lhs, rhs, out]. ctx_ok (Context graph) t \<and> contiguous_ok t) \<longrightarrow>
    CAPI_DGLKernelSDDMM X graph op lhs rhs out lhs_target rhs_target s =
    (Inl EdgeTypeCount, s))"
proof -
  assume n: "NumEdgeTypes graph \<noteq> 1"
  let ?names = "[''lhs'', ''rhs'', ''out'']"
  let ?c = "CheckCtx (Context graph) [lhs, rhs, out] ?names"
  let ?k = "CheckContiguous [lhs, rhs, out] ?names"
  have c: "?c = Inr () \<longleftrightarrow> (\<forall>t\<in>set [lhs, rhs, out]. ctx_ok (Context graph) t)"
    by (rule CheckCtx_Inr_iff) simp
  have k: "?k = Inr () \<longleftrightarrow> (\<forall>t\<in>set [lhs, rhs, out]. contiguous_ok t)"
    by (rule CheckContiguous_Inr_iff) simp
  have ck: "(\<forall>t\<in>set [lhs, rhs, out]. ctx_ok (Context graph) t \<and> contiguous_ok t) \<longleftrightarrow>
      ?c = Inr () \<and> ?k = Inr ()"
    unfolding c k by auto
  show ?thesis
    unfolding CAPI_DGLKernelSDDMM_def Let_def ck
    using n
    by (cases ?c; cases ?k)
       (auto simp del: CheckCtx.simps CheckContiguous.simps CheckShape.simps)
qed

lemma CAPI_DGLKernelSDDMM_Inr_edge_types:
  "fst (CAPI_DGLKernelSDDMM X graph op lhs rhs out lhs_target rhs_target s) = Inr k \<Longrightarrow>
   NumEdgeTypes graph = 1"
  using CAPI_DGLKernelSDDMM_edge_types [of graph X op lhs rhs out lhs_target rhs_target s]
  by (cases "NumEdgeTypes graph = 1") auto

text \<open>
  Claim C8. The SpMM and SDDMM entry points require a graph with exactly one edge type.
  With any other number of edge types the call fails before dispatch and leaves the
  store unchanged; the error is the edge-type error whenever the two checks that run
  before it (context, contiguity) have passed. A call that reaches a kernel was made on
  a graph with exactly one edge type.
\<close>

theorem single_edge_type_required:
  "(NumEdgeTypes graph \<noteq> 1 \<longrightarrow>
      (\<exists>e. CAPI_DGLKernelSpMM X graph op reduce_op U E V ArgU ArgE s = (Inl e, s)) \<and>
      ((\<forall>t\<in>set [U, E, V, ArgU, ArgE]. ctx_ok (Context graph) t \<and> contiguous_ok t) \<longrightarrow>
       CAPI_DGLKernelSpMM X graph op reduce_op U E V ArgU ArgE s = (Inl EdgeTypeCount, s)) \<and>
      (\<exists>e. CAPI_DGLKernelSDDMM X graph op lhs rhs out lhs_target rhs_target s =
             (Inl e, s)) \<and>
      ((\<forall>t\<in>set [lhs, rhs, out]. ctx_ok (Context graph) t \<and> contiguous_ok t) \<longrightarrow>
       CAPI_DGLKernelSDDMM X graph op lhs rhs out lhs_target rhs_target s =
       (Inl EdgeTypeCount, s))) \<and>
   (fst (CAPI_DGLKernelSpMM X graph op reduce_op U E V ArgU ArgE s) = Inr k \<longrightarrow>
      NumEdgeTypes graph = 1) \<and>
   (fst (CAPI_DGLKernelSDDMM X graph op lhs rhs out lhs_target rhs_target s) = Inr k \<longrightarrow>
      NumEdgeTypes graph = 1)"
proof -
  note o = CAPI_DGLKernelSpMM_outcome [of U E V ArgU ArgE graph X op reduce_op s]
  have a: "\<exists>e. CAPI_DGLKernelSpMM X graph op reduce_op U E V ArgU ArgE s = (Inl e, s)"
    if "NumEdgeTypes graph \<noteq> 1"
    using o that by metis
  have b: "CAPI_DGLKernelSpMM X graph op reduce_op U E V ArgU ArgE s = (Inl EdgeTypeCount, s)"
    if "NumEdgeTypes graph \<noteq> 1"
       "\<forall>t\<in>set [U, E, V, ArgU, ArgE]. ctx_ok (Context graph) t \<and> contiguous_ok t"
    using o that by metis
  have c: "NumEdgeTypes graph = 1"
    if "fst (CAPI_DGLKernelSpMM X graph op reduce_op U E V ArgU ArgE s) = Inr k"
    using a that by (cases "NumEdgeTypes graph = 1") auto
  note d = CAPI_DGLKernelSDDMM_edge_types [of graph X op lhs rhs out lhs_target rhs_target s]
  note e = CAPI_DGLKernelSDDMM_Inr_edge_types [of X graph op lhs rhs out lhs_target rhs_target s k]
  from a b c d e show ?thesis by blast
qed

theorem single_edge_type_required_witness:
  "NumEdgeTypes ((graph_of kCSC NullArray)\<lparr>NumEdgeTypes := 2\<rparr>) \<noteq> 1 \<and>
   CAPI_DGLKernelSpMM logging ((graph_of kCSC NullArray)\<lparr>NumEdgeTypes := 2\<rparr>) ''add'' ''sum''
     (tensor host float32 [3, 5]) (tensor host float32 [4, 5]) (tensor host float32 [2, 5])
     NullArray NullArray [] = (Inl EdgeTypeCount, []) \<and>
   CAPI_DGLKernelSDDMM logging ((graph_of kCSC NullArray)\<lparr>NumEdgeTypes := 2\<rparr>) ''add''
     (tensor host float32 [3, 5]) (tensor host float32 [4, 5]) (tensor host float32 [4, 5])
     0 1 [] = (Inl EdgeTypeCount, []) \<and>
   NumEdgeTypes (graph_of kCSC NullArray) = 1 \<and>
   NumEdgeTypes (graph_of kCOO NullArray) = 1"
proof -
  have n: "NumEdgeTypes ((graph_of kCSC NullArray)\<lparr>NumEdgeTypes := 2\<rparr>) \<noteq> 1"
    by simp
  have u: "\<forall>t\<in>set [tensor host float32 [3, 5], tensor host float32 [4, 5],
                     tensor host float32 [2, 5], NullArray, NullArray].
             ctx_ok (Context ((graph_of kCSC NullArray)\<lparr>NumEdgeTypes := 2\<rparr>)) t \<and>
             contiguous_ok t"
    by (simp add: ctx_ok_def contiguous_ok_def IsNullArray_def NullArray_def tensor_def
          graph_of_def)
  have v: "\<forall>t\<in>set [tensor host float32 [3, 5], tensor host float32 [4, 5],
                     tensor host float32 [4, 5]].
             ctx_ok (Context ((graph_of kCSC NullArray)\<lparr>NumEdgeTypes := 2\<rparr>)) t \<and>
             contiguous_ok t"
    by (simp add: ctx_ok_def contiguous_ok_def IsNullArray_def tensor_def graph_of_def)
  have k: "fst (CAPI_DGLKernelSpMM logging (graph_of kCSC NullArray) ''add'' ''sum''
     (tensor host float32 [3, 5]) (tensor host float32 [4, 5]) (tensor host float32 [2, 5])
     NullArray NullArray []) =
     Inr (SpMMCsr Host Int64 Float32 ''add'' ''sum'' ()
            (GetCSCMatrix (graph_of kCSC NullArray) 0) (tensor host float32 [3, 5])
            (tensor host float32 [4, 5]) (tensor host float32 [2, 5]) [NullArray, NullArray])"
    by (simp add: CAPI_DGLKernelSpMM_def SpMM_def launch_def logging_def graph_of_def
        tensor_def NullArray_def IsNullArray_def ndim_def gdim_at_def
        xpu_switch_def id_type_switch_def float_bits_switch_def host_def
        int64_def float32_def kDLCPU_def kDLGPU_def kDLInt_def kDLFloat_def kDLBfloat_def)
  have d: "fst (CAPI_DGLKernelSDDMM logging (graph_of kCOO NullArray) ''dot''
     (tensor host float32 [3, 5]) (tensor host float32 [2, 5]) (tensor host float32 [4, 1])
     0 2 []) =
     Inr (SDDMMCoo Host Int64 Float32 ''dot'' ()
            (GetCOOMatrix (graph_of kCOO NullArray) 0) (tensor host float32 [3, 5])
            (tensor host float32 [2, 5]) (tensor host float32 [4, 1]) 0 2)"
    by (simp add: CAPI_DGLKernelSDDMM_def SDDMM_def launch_def logging_def graph_of_def
        tensor_def IsNullArray_def ndim_def gdim_at_def
        xpu_switch_def id_type_switch_def float_bits_switch_def host_def
        int64_def float32_def kDLCPU_def kDLGPU_def kDLInt_def kDLFloat_def kDLBfloat_def)
  from n u v k d
    single_edge_type_required
      [where X = logging and graph = "graph_of kCOO NullArray" and op = "''dot''"
         and lhs = "tensor host float32 [3, 5]" and rhs = "tensor host float32 [2, 5]"
         and out = "tensor host float32 [4, 1]" and lhs_target = 0 and rhs_target = 2
         and s = "[]"
         and k = "SDDMMCoo Host Int64 Float32 ''dot'' ()
            (GetCOOMatrix (graph_of kCOO NullArray) 0) (tensor host float32 [3, 5])
            (tensor host float32 [2, 5]) (tensor host float32 [4, 1]) 0 2"]
    single_edge_type_required
      [where X = logging and graph = "(graph_of kCSC NullArray)\<lparr>NumEdgeTypes := 2\<rparr>"
         and op = "''add''" and reduce_op = "''sum''"
         and U = "tensor host float32 [3, 5]" and E = "tensor host float32 [4, 5]"
         and V = "tensor host float32 [2, 5]" and ArgU = NullArray and ArgE = NullArray
         and lhs = "tensor host float32 [3, 5]" and rhs = "tensor host float32 [4, 5]"
         and out = "tensor host float32 [4, 5]" and lhs_target = 0 and rhs_target = 1
         and s = "[]"]
    single_edge_type_required
      [where X = logging and graph = "graph_of kCSC NullArray"
         and op = "''add''" and reduce_op = "''sum''"
         and U = "tensor host float32 [3, 5]" and E = "tensor host float32 [4, 5]"
         and V = "tensor host float32 [2, 5]" and ArgU = NullArray and ArgE = NullArray
         and s = "[]"
         and k = "SpMMCsr Host Int64 Float32 ''add'' ''sum'' ()
            (GetCSCMatrix (graph_of kCSC NullArray) 0) (tensor host float32 [3, 5])
            (tensor host float32 [4, 5]) (tensor host float32 [2, 5]) [NullArray, NullArray]"]
  show ?thesis by blast
qed

subsection \<open>The format each operation asks for\<close>

lemma SpMM_answer_decides:
  assumes "CalcBcastOff X op ufeat efeat = Inr bcast"
    and "ATEN_XPU_SWITCH_CUDA X (device_type (Context graph)) = Some XPU"
    and "ATEN_ID_TYPE_SWITCH X (DataType graph) = Some IdType"
    and "ATEN_FLOAT_BITS_SWITCH X (dtype out) = Some fbits"
    and "sel 0 csc_code \<noteq> sel' 0 csc_code"
  shows "fst (SpMM X op reduce (graph\<lparr>SelectFormat := sel\<rparr>) ufeat efeat out out_aux s) \<noteq>
         fst (SpMM X op reduce (graph\<lparr>SelectFormat := sel'\<rparr>) ufeat efeat out out_aux s)"
proof -
  have a: "ATEN_XPU_SWITCH_CUDA X (device_type (Context (graph\<lparr>SelectFormat := f\<rparr>))) = Some XPU"
      "ATEN_ID_TYPE_SWITCH X (DataType (graph\<lparr>SelectFormat := f\<rparr>)) = Some IdType" for f
    using assms(2,3) by simp_all
  show ?thesis
    using assms(5)
    by (cases "sel 0 csc_code"; cases "sel' 0 csc_code")
       (simp_all add: SpMM_resolved [OF assms(1) a assms(4)])
qed

lemma SDDMM_answer_decides:
  assumes "CalcBcastOff X op lhs rhs = Inr bcast"
    and "ATEN_XPU_SWITCH_CUDA X (device_type (Context graph)) = Some XPU"
    and "ATEN_ID_TYPE_SWITCH X (DataType graph) = Some IdType"
    and "ATEN_FLOAT_BITS_SWITCH X (dtype out) = Some fbits"
    and "sel 0 coo_code \<noteq> sel' 0 coo_code"
  shows "fst (SDDMM X op (graph\<lparr>SelectFormat := sel\<rparr>) lhs rhs out lhs_target rhs_target s) \<noteq>
         fst (SDDMM X op (graph\<lparr>SelectFormat := sel'\<rparr>) lhs rhs out lhs_target rhs_target s)"
proof -
  have a: "ATEN_XPU_SWITCH_CUDA X (device_type (Context (graph\<lparr>SelectFormat := f\<rparr>))) = Some XPU"
      "ATEN_ID_TYPE_SWITCH X (DataType (graph\<lparr>SelectFormat := f\<rparr>)) = Some IdType" for f
    using assms(2,3) by simp_all
  show ?thesis
    using assms(5)
    by (cases "sel 0 coo_code"; cases "sel' 0 coo_code")
       (simp_all add: SDDMM_resolved [OF assms(1) a assms(4)])
qed

lemma GetEdgeMapping_answer_decides:
  assumes "sel 0 csc_code = kCSC" and "sel' 0 csc_code \<noteq> kCSC"
    and "\<not> IsNullArray (data (GetCSCMatrix graph 0))"
  shows "GetEdgeMapping (graph\<lparr>SelectFormat := sel\<rparr>) \<noteq>
         GetEdgeMapping (graph\<lparr>SelectFormat := sel'\<rparr>)"
  using assms by (auto simp: GetEdgeMapping_def IsNullArray_def NullArray_def)

text \<open>
  Claim C9. Whatever the operator and the reduce operator, SpMM and the edge-mapping
  query put one request to the selector of the graph, for edge type 0 with preferred
  format compressed-by-destination, and SDDMM one request for edge type 0 with preferred
  format coordinate-list, and they act on the answer. The answer to that request
  decides what runs: for SpMM the compressed kernel on the compressed-by-destination
  adjacency, the coordinate-list kernel, or the format error; for SDDMM the compressed
  kernel on the compressed-by-source adjacency, the coordinate-list kernel, or the
  format error; for the query the mapping of the compressed-by-destination adjacency or
  the null result. Two selectors that answer that request differently give different
  outcomes (once resolver and switches succeed; for the query when one answer is
  compressed-by-destination and that adjacency has a mapping), and two selectors that
  answer it alike give the same outcome, whatever they answer to any other request.
\<close>

theorem preferred_format_fixed:
  "(sel 0 csc_code = sel' 0 csc_code \<longrightarrow>
      SpMM X op reduce (graph\<lparr>SelectFormat := sel\<rparr>) ufeat efeat out out_aux s =
      SpMM X op reduce (graph\<lparr>SelectFormat := sel'\<rparr>) ufeat efeat out out_aux s \<and>
      GetEdgeMapping (graph\<lparr>SelectFormat := sel\<rparr>) =
      GetEdgeMapping (graph\<lparr>SelectFormat := sel'\<rparr>)) \<and>
   (sel 0 coo_code = sel' 0 coo_code \<longrightarrow>
      SDDMM X op (graph\<lparr>SelectFormat := sel\<rparr>) lhs rhs out lhs_target rhs_target s =
      SDDMM X op (graph\<lparr>SelectFormat := sel'\<rparr>) lhs rhs out lhs_target rhs_target s) \<and>
   SpMM X op reduce graph ufeat efeat out out_aux s =
   SpMM X op reduce (graph\<lparr>SelectFormat := \<lambda>etype preferred. SelectFormat graph 0 csc_code\<rparr>)
     ufeat efeat out out_aux s \<and>
   GetEdgeMapping graph =
   GetEdgeMapping (graph\<lparr>SelectFormat := \<lambda>etype preferred. SelectFormat graph 0 csc_code\<rparr>) \<and>
   SDDMM X op graph lhs rhs out lhs_target rhs_target s =
   SDDMM X op (graph\<lparr>SelectFormat := \<lambda>etype preferred. SelectFormat graph 0 coo_code\<rparr>)
     lhs rhs out lhs_target rhs_target s \<and>
   (CalcBcastOff X op ufeat efeat = Inr bcast \<and>
    ATEN_XPU_SWITCH_CUDA X (device_type (Context graph)) = Some XPU \<and>
    ATEN_ID_TYPE_SWITCH X (DataType graph) = Some IdType \<and>
    ATEN_FLOAT_BITS_SWITCH X (dtype out) = Some fbits \<longrightarrow>
      SpMM X op reduce graph ufeat efeat out out_aux s =
        (case SelectFormat graph 0 csc_code of
           kCSC \<Rightarrow>
             (Inr (SpMMCsr XPU IdType fbits op reduce bcast (GetCSCMatrix graph 0)
                     ufeat efeat out out_aux),
              kernel X (SpMMCsr XPU IdType fbits op reduce bcast (GetCSCMatrix graph 0)
                     ufeat efeat out out_aux) s)
         | kCOO \<Rightarrow>
             (Inr (SpMMCoo XPU IdType fbits op reduce bcast (GetCOOMatrix graph 0)
                     ufeat efeat out out_aux),
              kernel X (SpMMCoo XPU IdType fbits op reduce bcast (GetCOOMatrix graph 0)
                     ufeat efeat out out_aux) s)
         | kCSR \<Rightarrow> (Inl UnsupportedFormat, s)) \<and>
      (sel 0 csc_code \<noteq> sel' 0 csc_code \<longrightarrow>
         fst (SpMM X op reduce (graph\<lparr>SelectFormat := sel\<rparr>) ufeat efeat out out_aux s) \<noteq>
         fst (SpMM X op reduce (graph\<lparr>SelectFormat := sel'\<rparr>) ufeat efeat out out_aux s))) \<and>
   (CalcBcastOff X op lhs rhs = Inr bcast \<and>
    ATEN_XPU_SWITCH_CUDA X (device_type (Context graph)) = Some XPU \<and>
    ATEN_ID_TYPE_SWITCH X (DataType graph) = Some IdType \<and>
    ATEN_FLOAT_BITS_SWITCH X (dtype out) = Some fbits \<longrightarrow>
      SDDMM X op graph lhs rhs out lhs_target rhs_target s =
        (case SelectFormat graph 0 coo_code of
           kCSR \<Rightarrow>
             (Inr (SDDMMCsr XPU IdType fbits op bcast (GetCSRMatrix graph 0)
                     lhs rhs out lhs_target rhs_target),
              kernel X (SDDMMCsr XPU IdType fbits op bcast (GetCSRMatrix graph 0)
                     lhs rhs out lhs_target rhs_target) s)
         | kCOO \<Rightarrow>
             (Inr (SDDMMCoo XPU IdType fbits op bcast (GetCOOMatrix graph 0)
                     lhs rhs out lhs_target rhs_target),
              kernel X (SDDMMCoo XPU IdType fbits op bcast (GetCOOMatrix graph 0)
                     lhs rhs out lhs_target rhs_target) s)
         | kCSC \<Rightarrow> (Inl UnsupportedFormat, s)) \<and>
      (sel 0 coo_code \<noteq> sel' 0 coo_code \<longrightarrow>
         fst (SDDMM X op (graph\<lparr>SelectFormat := sel\<rparr>) lhs rhs out lhs_target rhs_target s) \<noteq>
         fst (SDDMM X op (graph\<lparr>SelectFormat := sel'\<rparr>) lhs rhs out lhs_target rhs_target s))) \<and>
   GetEdgeMapping graph =
     (case SelectFormat graph 0 csc_code of
        kCSC \<Rightarrow> data (GetCSCMatrix graph 0)
      | kCOO \<Rightarrow> NullArray
      | kCSR \<Rightarrow> NullArray) \<and>
   (sel 0 csc_code = kCSC \<and> sel' 0 csc_code \<noteq> kCSC \<and>
    \<not> IsNullArray (data (GetCSCMatrix graph 0)) \<longrightarrow>
      GetEdgeMapping (graph\<lparr>SelectFormat := sel\<rparr>) \<noteq>
      GetEdgeMapping (graph\<lparr>SelectFormat := sel'\<rparr>))"
proof -
  have ni: "(sel 0 csc_code = sel' 0 csc_code \<longrightarrow>
      SpMM X op reduce (graph\<lparr>SelectFormat := sel\<rparr>) ufeat efeat out out_aux s =
      SpMM X op reduce (graph\<lparr>SelectFormat := sel'\<rparr>) ufeat efeat out out_aux s \<and>
      GetEdgeMapping (graph\<lparr>SelectFormat := sel\<rparr>) =
      GetEdgeMapping (graph\<lparr>SelectFormat := sel'\<rparr>)) \<and>
   (sel 0 coo_code = sel' 0 coo_code \<longrightarrow>
      SDDMM X op (graph\<lparr>SelectFormat := sel\<rparr>) lhs rhs out lhs_target rhs_target s =
      SDDMM X op (graph\<lparr>SelectFormat := sel'\<rparr>) lhs rhs out lhs_target rhs_target s) \<and>
   SpMM X op reduce graph ufeat efeat out out_aux s =
   SpMM X op reduce (graph\<lparr>SelectFormat := \<lambda>etype preferred. SelectFormat graph 0 csc_code\<rparr>)
     ufeat efeat out out_aux s \<and>
   GetEdgeMapping graph =
   GetEdgeMapping (graph\<lparr>SelectFormat := \<lambda>etype preferred. SelectFormat graph 0 csc_code\<rparr>) \<and>
   SDDMM X op graph lhs rhs out lhs_target rhs_target s =
   SDDMM X op (graph\<lparr>SelectFormat := \<lambda>etype preferred. SelectFormat graph 0 coo_code\<rparr>)
     lhs rhs out lhs_target rhs_target s"
    by (simp add: SpMM_def SDDMM_def GetEdgeMapping_def Let_def
          cong: sum.case_cong option.case_cong if_cong)
  have q: "GetEdgeMapping graph =
     (case SelectFormat graph 0 csc_code of
        kCSC \<Rightarrow> data (GetCSCMatrix graph 0)
      | kCOO \<Rightarrow> NullArray
      | kCSR \<Rightarrow> NullArray)"
    by (simp add: GetEdgeMapping_def split: SparseFormat.splits)
  note a = SpMM_resolved [of X op ufeat efeat bcast graph XPU IdType out fbits reduce out_aux s]
    SpMM_answer_decides [of X op ufeat efeat bcast graph XPU IdType out fbits sel sel'
      reduce out_aux s]
  note b = SDDMM_resolved [of X op lhs rhs bcast graph XPU IdType out fbits
      lhs_target rhs_target s]
    SDDMM_answer_decides [of X op lhs rhs bcast graph XPU IdType out fbits sel sel'
      lhs_target rhs_target s]
  note c = GetEdgeMapping_answer_decides [of sel sel' graph]
  from ni q a b c show ?thesis by blast
qed

theorem preferred_format_fixed_witness:
  "(\<lambda>etype preferred. if etype = 0 \<and> preferred = csc_code then kCOO else kCSC) (0 :: nat) csc_code =
     (\<lambda>etype preferred. kCOO) (0 :: nat) csc_code \<and>
   SpMM logging ''add'' ''sum''
     ((graph_of kCSC NullArray)
        \<lparr>SelectFormat := \<lambda>etype preferred.
           if etype = 0 \<and> preferred = csc_code then kCOO else kCSC\<rparr>)
     (tensor host float32 [3, 5]) (tensor host float32 [4, 5]) (tensor host float32 [2, 5])
     [NullArray, NullArray] [] =
   SpMM logging ''add'' ''sum''
     ((graph_of kCSC NullArray)\<lparr>SelectFormat := \<lambda>etype preferred. kCOO\<rparr>)
     (tensor host float32 [3, 5]) (tensor host float32 [4, 5]) (tensor host float32 [2, 5])
     [NullArray, NullArray] [] \<and>
   SpMM logging ''add'' ''sum''
     ((graph_of kCSC NullArray)
        \<lparr>SelectFormat := \<lambda>etype preferred.
           if etype = 0 \<and> preferred = csc_code then kCOO else kCSC\<rparr>)
     (tensor host float32 [3, 5]) (tensor host float32 [4, 5]) (tensor host float32 [2, 5])
     [NullArray, NullArray] [] =
     (Inr (SpMMCoo Host Int64 Float32 ''add'' ''sum'' ()
             (GetCOOMatrix (graph_of kCSC NullArray) 0) (tensor host float32 [3, 5])
             (tensor host float32 [4, 5]) (tensor host float32 [2, 5]) [NullArray, NullArray]),
      [SpMMCoo Host Int64 Float32 ''add'' ''sum'' ()
             (GetCOOMatrix (graph_of kCSC NullArray) 0) (tensor host float32 [3, 5])
             (tensor host float32 [4, 5]) (tensor host float32 [2, 5]) [NullArray, NullArray]]) \<and>
   fst (SpMM logging ''add'' ''sum''
     ((graph_of kCSC NullArray)
        \<lparr>SelectFormat := \<lambda>etype preferred.
           if etype = 0 \<and> preferred = csc_code then kCOO else kCSC\<rparr>)
     (tensor host float32 [3, 5]) (tensor host float32 [4, 5]) (tensor host float32 [2, 5])
     [NullArray, NullArray] []) \<noteq>
   fst (SpMM logging ''add'' ''sum''
     ((graph_of kCSC NullArray)\<lparr>SelectFormat := \<lambda>etype preferred. kCSC\<rparr>)
     (tensor host float32 [3, 5]) (tensor host float32 [4, 5]) (tensor host float32 [2, 5])
     [NullArray, NullArray] []) \<and>
   SDDMM logging ''dot''
     ((graph_of kCSC NullArray)
        \<lparr>SelectFormat := \<lambda>etype preferred.
           if etype = 0 \<and> preferred = coo_code then kCSR else kCOO\<rparr>)
     (tensor host float32 [3, 5]) (tensor host float32 [2, 5]) (tensor host float32 [4, 1])
     0 2 [] =
     (Inr (SDDMMCsr Host Int64 Float32 ''dot'' ()
             (GetCSRMatrix (graph_of kCSC NullArray) 0) (tensor host float32 [3, 5])
             (tensor host float32 [2, 5]) (tensor host float32 [4, 1]) 0 2),
      [SDDMMCsr Host Int64 Float32 ''dot'' ()
             (GetCSRMatrix (graph_of kCSC NullArray) 0) (tensor host float32 [3, 5])
             (tensor host float32 [2, 5]) (tensor host float32 [4, 1]) 0 2]) \<and>
   fst (SDDMM logging ''dot''
     ((graph_of kCSC NullArray)
        \<lparr>SelectFormat := \<lambda>etype preferred.
           if etype = 0 \<and> preferred = coo_code then kCSR else kCOO\<rparr>)
     (tensor host float32 [3, 5]) (tensor host float32 [2, 5]) (tensor host float32 [4, 1])
     0 2 []) \<noteq>
   fst (SDDMM logging ''dot''
     ((graph_of kCSC NullArray)\<lparr>SelectFormat := \<lambda>etype preferred. kCOO\<rparr>)
     (tensor host float32 [3, 5]) (tensor host float32 [2, 5]) (tensor host float32 [4, 1])
     0 2 []) \<and>
   GetEdgeMapping
     ((graph_of kCOO NullArray)
        \<lparr>GetCSCMatrix := \<lambda>etype.
           \<lparr>indptr = NullArray, indices = NullArray, data = tensor host int64 [4]\<rparr>,
         SelectFormat := \<lambda>etype preferred.
           if etype = 0 \<and> preferred = csc_code then kCSC else kCOO\<rparr>) =
     tensor host int64 [4] \<and>
   GetEdgeMapping
     ((graph_of kCOO NullArray)
        \<lparr>GetCSCMatrix := \<lambda>etype.
           \<lparr>indptr = NullArray, indices = NullArray, data = tensor host int64 [4]\<rparr>,
         SelectFormat := \<lambda>etype preferred.
           if etype = 0 \<and> preferred = csc_code then kCSC else kCOO\<rparr>) \<noteq>
   GetEdgeMapping
     ((graph_of kCOO NullArray)
        \<lparr>GetCSCMatrix := \<lambda>etype.
           \<lparr>indptr = NullArray, indices = NullArray, data = tensor host int64 [4]\<rparr>,
         SelectFormat := \<lambda>etype preferred. kCOO\<rparr>)"
  using preferred_format_fixed
      [where sel = "\<lambda>etype preferred. if etype = 0 \<and> preferred = csc_code then kCOO else kCSC"
         and sel' = "\<lambda>etype preferred. kCOO" and X = logging and op = "''add''"
         and reduce = "''sum''" and graph = "graph_of kCSC NullArray"
         and ufeat = "tensor host float32 [3, 5]" and efeat = "tensor host float32 [4, 5]"
         and out = "tensor host float32 [2, 5]" and out_aux = "[NullArray, NullArray]"
         and s = "[]"]
    preferred_format_fixed
      [where X = logging and op = "''add''" and reduce = "''sum''"
         and graph = "(graph_of kCSC NullArray)
            \<lparr>SelectFormat := \<lambda>etype preferred.
               if etype = 0 \<and> preferred = csc_code then kCOO else kCSC\<rparr>"
         and ufeat = "tensor host float32 [3, 5]" and efeat = "tensor host float32 [4, 5]"
         and out = "tensor host float32 [2, 5]" and out_aux = "[NullArray, NullArray]"
         and s = "[]" and bcast = "()" and XPU = Host and IdType = Int64
         and fbits = Float32
         and sel = "\<lambda>etype preferred. if etype = 0 \<and> preferred = csc_code then kCOO else kCSC"
         and sel' = "\<lambda>etype preferred. kCSC"]
    preferred_format_fixed
      [where X = logging and op = "''dot''"
         and graph = "(graph_of kCSC NullArray)
            \<lparr>SelectFormat := \<lambda>etype preferred.
               if etype = 0 \<and> preferred = coo_code then kCSR else kCOO\<rparr>"
         and lhs = "tensor host float32 [3, 5]" and rhs = "tensor host float32 [2, 5]"
         and out = "tensor host float32 [4, 1]" and lhs_target = 0 and rhs_target = 2
         and s = "[]" and bcast = "()" and XPU = Host and IdType = Int64
         and fbits = Float32
         and sel = "\<lambda>etype preferred. if etype = 0 \<and> preferred = coo_code then kCSR else kCOO"
         and sel' = "\<lambda>etype preferred. kCOO"]
    preferred_format_fixed
      [where graph = "(graph_of kCOO NullArray)
            \<lparr>GetCSCMatrix := \<lambda>etype.
               \<lparr>indptr = NullArray, indices = NullArray, data = tensor host int64 [4]\<rparr>\<rparr>"
         and sel = "\<lambda>etype preferred. if etype = 0 \<and> preferred = csc_code then kCSC else kCOO"
         and sel' = "\<lambda>etype preferred. kCOO"]
  by (simp add: SpMM_def SDDMM_def GetEdgeMapping_def launch_def logging_def graph_of_def
        tensor_def NullArray_def IsNullArray_def
        xpu_switch_def id_type_switch_def float_bits_switch_def host_def
        int64_def float32_def kDLCPU_def kDLGPU_def kDLInt_def kDLFloat_def kDLBfloat_def)

subsection \<open>Backward segment compare\<close>

text \<open>
  Claim C10, as stated, fails in its last part: passing the two checks does not make
  dispatch proceed to the kernel. With \<open>arg\<close> of a 16-bit integer dtype the operands
  pass both checks and the index-width switch has no branch for them.
\<close>

theorem bwd_segment_cmp_counterexample:
  "CheckCtx (ctx (tensor host float32 [2, 5]))
     [tensor host float32 [2, 5], tensor host int16 [2, 5], tensor host float32 [4, 5]]
     [''feat'', ''arg'', ''out''] = Inr () \<and>
   CheckContiguous
     [tensor host float32 [2, 5], tensor host int16 [2, 5], tensor host float32 [4, 5]]
     [''feat'', ''arg'', ''out''] = Inr () \<and>
   CAPI_DGLKernelBwdSegmentCmp logging (tensor host float32 [2, 5])
     (tensor host int16 [2, 5]) (tensor host float32 [4, 5]) [] =
     (Inl UnsupportedDispatch, [])"
  by (simp add: CAPI_DGLKernelBwdSegmentCmp_def BackwardSegmentCmpDispatch_def
        logging_def tensor_def IsNullArray_def xpu_switch_def id_type_switch_def
        float_bits_switch_def host_def int16_def float32_def
        kDLCPU_def kDLGPU_def kDLInt_def kDLFloat_def kDLBfloat_def)

text \<open>
  Claim C10, amended. The entry point of backward segment compare checks the device
  context (against that of \<open>feat\<close>) and the contiguity of \<open>feat\<close>, \<open>arg\<close> and \<open>out\<close>, and
  nothing about their shapes: when one of the two checks fails the call fails with that
  error; when both pass, the outcome is decided by three switches alone, on the device
  type of \<open>feat\<close>, on the dtype of \<open>arg\<close> for the index width and on the dtype of \<open>feat\<close>
  for the float precision. If each switch has a branch, the kernel instantiated with
  the three results runs on \<open>feat\<close>, \<open>arg\<close>, \<open>out\<close>; otherwise the call fails with the
  unsupported-dispatch error and the store is unchanged.
\<close>

theorem bwd_segment_cmp_dispatch:
  "(\<not> (\<forall>t\<in>set [feat, arg, out]. ctx_ok (ctx feat) t \<and> contiguous_ok t) \<longrightarrow>
      (\<exists>n. CAPI_DGLKernelBwdSegmentCmp X feat arg out s = (Inl (ContextMismatch n), s) \<or>
           CAPI_DGLKernelBwdSegmentCmp X feat arg out s = (Inl (NotContiguous n), s))) \<and>
   ((\<forall>t\<in>set [feat, arg, out]. ctx_ok (ctx feat) t \<and> contiguous_ok t) \<longrightarrow>
      (ATEN_XPU_SWITCH_CUDA X (device_type (ctx feat)) = Some XPU \<and>
       ATEN_ID_TYPE_SWITCH X (dtype arg) = Some IdType \<and>
       ATEN_FLOAT_BITS_SWITCH X (dtype feat) = Some fbits \<longrightarrow>
       CAPI_DGLKernelBwdSegmentCmp X feat arg out s =
       (Inr (BackwardSegmentCmp XPU IdType fbits feat arg out),
        kernel X (BackwardSegmentCmp XPU IdType fbits feat arg out) s)) \<and>
      (ATEN_XPU_SWITCH_CUDA X (device_type (ctx feat)) = None \<or>
       ATEN_ID_TYPE_SWITCH X (dtype arg) = None \<or>
       ATEN_FLOAT_BITS_SWITCH X (dtype feat) = None \<longrightarrow>
       CAPI_DGLKernelBwdSegmentCmp X feat arg out s = (Inl UnsupportedDispatch, s)))"
proof -
  note o = CAPI_DGLKernelBwdSegmentCmp_outcome [of feat arg out X s]
  have a: "\<exists>n. CAPI_DGLKernelBwdSegmentCmp X feat arg out s = (Inl (ContextMismatch n), s) \<or>
           CAPI_DGLKernelBwdSegmentCmp X feat arg out s = (Inl (NotContiguous n), s)"
    if "\<not> (\<forall>t\<in>set [feat, arg, out]. ctx_ok (ctx feat) t \<and> contiguous_ok t)"
    using o that by metis
  have e: "CAPI_DGLKernelBwdSegmentCmp X feat arg out s =
      BackwardSegmentCmpDispatch X feat arg out s"
    if "\<forall>t\<in>set [feat, arg, out]. ctx_ok (ctx feat) t \<and> contiguous_ok t"
    using o that by metis
  have b: "BackwardSegmentCmpDispatch X feat arg out s =
       (Inr (BackwardSegmentCmp XPU IdType fbits feat arg out),
        kernel X (BackwardSegmentCmp XPU IdType fbits feat arg out) s)"
    if "ATEN_XPU_SWITCH_CUDA X (device_type (ctx feat)) = Some XPU"
       "ATEN_ID_TYPE_SWITCH X (dtype arg) = Some IdType"
       "ATEN_FLOAT_BITS_SWITCH X (dtype feat) = Some fbits"
    using that by (simp add: BackwardSegmentCmpDispatch_def launch_def)
  have c: "BackwardSegmentCmpDispatch X feat arg out s = (Inl UnsupportedDispatch, s)"
    if "ATEN_XPU_SWITCH_CUDA X (device_type (ctx feat)) = None \<or>
       ATEN_ID_TYPE_SWITCH X (dtype arg) = None \<or>
       ATEN_FLOAT_BITS_SWITCH X (dtype feat) = None"
    using that by (auto simp: BackwardSegmentCmpDispatch_def split: option.splits)
  from a e b c show ?thesis by metis
qed

theorem bwd_segment_cmp_dispatch_witness:
  "(\<exists>n. CAPI_DGLKernelBwdSegmentCmp logging (tensor host float32 [2, 5])
          (strided (tensor host int64 [2, 5])) (tensor host float32 [4, 5]) [] =
          (Inl (ContextMismatch n), []) \<or>
        CAPI_DGLKernelBwdSegmentCmp logging (tensor host float32 [2, 5])
          (strided (tensor host int64 [2, 5])) (tensor host float32 [4, 5]) [] =
          (Inl (NotContiguous n), [])) \<and>
   CAPI_DGLKernelBwdSegmentCmp logging (tensor host float32 [2, 5])
     (tensor host int64 [2]) (tensor host float32 [4, 5, 6]) [] =
     (Inr (BackwardSegmentCmp Host Int64 Float32 (tensor host float32 [2, 5])
             (tensor host int64 [2]) (tensor host float32 [4, 5, 6])),
      kernel logging
        (BackwardSegmentCmp Host Int64 Float32 (tensor host float32 [2, 5])
           (tensor host int64 [2]) (tensor host float32 [4, 5, 6])) []) \<and>
   CAPI_DGLKernelBwdSegmentCmp logging (tensor host float32 [2, 5])
     (tensor host int16 [2, 5]) (tensor host float32 [4, 5]) [] =
     (Inl UnsupportedDispatch, [])"
proof -
  have a: "\<not> (\<forall>t\<in>set [tensor host float32 [2, 5], strided (tensor host int64 [2, 5]),
                        tensor host float32 [4, 5]].
               ctx_ok (ctx (tensor host float32 [2, 5])) t \<and> contiguous_ok t)"
    by (simp add: ctx_ok_def contiguous_ok_def IsNullArray_def tensor_def strided_def)
  have b: "\<forall>t\<in>set [tensor host float32 [2, 5], tensor host int64 [2],
                     tensor host float32 [4, 5, 6]].
               ctx_ok (ctx (tensor host float32 [2, 5])) t \<and> contiguous_ok t"
    by (simp add: ctx_ok_def contiguous_ok_def IsNullArray_def tensor_def)
  have c: "\<forall>t\<in>set [tensor host float32 [2, 5], tensor host int16 [2, 5],
                     tensor host float32 [4, 5]].
               ctx_ok (ctx (tensor host float32 [2, 5])) t \<and> contiguous_ok t"
    by (simp add: ctx_ok_def contiguous_ok_def IsNullArray_def tensor_def)
  have d: "ATEN_XPU_SWITCH_CUDA logging (device_type (ctx (tensor host float32 [2, 5]))) =
             Some Host"
          "ATEN_ID_TYPE_SWITCH logging (dtype (tensor host int64 [2])) = Some Int64"
          "ATEN_FLOAT_BITS_SWITCH logging (dtype (tensor host float32 [2, 5])) = Some Float32"
          "ATEN_ID_TYPE_SWITCH logging (dtype (tensor host int16 [2, 5])) = None"
    by (simp_all add: logging_def tensor_def xpu_switch_def id_type_switch_def
          float_bits_switch_def host_def int16_def int64_def float32_def
          kDLCPU_def kDLGPU_def kDLInt_def kDLFloat_def kDLBfloat_def)
  from a b c d
    bwd_segment_cmp_dispatch
      [where X = logging and feat = "tensor host float32 [2, 5]"
         and arg = "strided (tensor host int64 [2, 5])"
         and out = "tensor host float32 [4, 5]" and s = "[]"]
    bwd_segment_cmp_dispatch
      [where X = logging and feat = "tensor host float32 [2, 5]"
         and arg = "tensor host int64 [2]"
         and out = "tensor host float32 [4, 5, 6]" and s = "[]"
         and XPU = Host and IdType = Int64 and fbits = Float32]
    bwd_segment_cmp_dispatch
      [where X = logging and feat = "tensor host float32 [2, 5]"
         and arg = "tensor host int16 [2, 5]"
         and out = "tensor host float32 [4, 5]" and s = "[]"]
  show ?thesis by blast
qed

end
